theory Spec2Isabelle
  imports Main "HOL-Library.Sublist"
begin

section \<open>JavaScript values\<close>

text \<open>
  The middleware of \<^verbatim>\<open>src/middleware.js\<close> handles untyped JavaScript values: the action,
  the \<^verbatim>\<open>[CALL_API]\<close> object inside it, type descriptors, responses, events. They are
  modelled by one datatype. A plain object is an association list of its own enumerable
  properties, read by first match; a callable is an opaque reference, run by the
  environment (see \<open>call\<close> below); numbers are the integer-valued ones that print in
  decimal notation (below \<^verbatim>\<open>1e21\<close> in absolute value).
\<close>

datatype jsval =
    JUndefined
  | JNull
  | JBool bool
  | JNum int
  | JStr string
  | JArr "jsval list"
  | JObj "(string \<times> jsval) list"
  | JFun nat

text \<open>
  A thrown value (or the reason of a rejected promise) is any value: \<open>Exn name msg\<close> is an
  instance of the \<^verbatim>\<open>Error\<close> class \<open>name\<close> whose \<^verbatim>\<open>message\<close> is the string \<open>msg\<close> (what the
  engine throws, and what \<^verbatim>\<open>throw new Error(msg)\<close> throws), \<open>Thrown x\<close> any other value \<open>x\<close>
  (\<^verbatim>\<open>throw 'down'\<close>, \<^verbatim>\<open>Promise.reject()\<close>, \<^verbatim>\<open>throw {code: 7}\<close>).
\<close>

datatype exn = Exn string string | Thrown jsval

text \<open>The completion of an evaluation: a value, or an abrupt completion by \<^verbatim>\<open>throw\<close>.\<close>

datatype 'a completion = Normal 'a | Abrupt exn

text \<open>JavaScript's \<^verbatim>\<open>ToBoolean\<close>, as \<^verbatim>\<open>if (x)\<close>, \<^verbatim>\<open>x && y\<close> and \<^verbatim>\<open>x || y\<close> apply it.\<close>

fun truthy :: "jsval \<Rightarrow> bool" where
  "truthy JUndefined = False"
| "truthy JNull = False"
| "truthy (JBool b) = b"
| "truthy (JNum n) = (n \<noteq> 0)"
| "truthy (JStr s) = (s \<noteq> [])"
| "truthy (JArr xs) = True"
| "truthy (JObj ps) = True"
| "truthy (JFun f) = True"

text \<open>\<^verbatim>\<open>typeof x === 'function'\<close>, \<^verbatim>\<open>typeof x === 'boolean'\<close>, \<^verbatim>\<open>Array.isArray(x)\<close>.\<close>

fun is_function :: "jsval \<Rightarrow> bool" where
  "is_function (JFun f) = True"
| "is_function v = False"

fun is_boolean :: "jsval \<Rightarrow> bool" where
  "is_boolean (JBool b) = True"
| "is_boolean v = False"

fun isArray :: "jsval \<Rightarrow> bool" where
  "isArray (JArr xs) = True"
| "isArray v = False"

text \<open>
  \<open>prop_of v k\<close> is the property read \<^verbatim>\<open>v.k\<close> on a value that is neither \<^verbatim>\<open>undefined\<close> nor
  \<^verbatim>\<open>null\<close>. The source only reads the names \<^verbatim>\<open>[CALL_API]\<close>, \<^verbatim>\<open>types\<close>, \<^verbatim>\<open>type\<close>,
  \<^verbatim>\<open>endpoint\<close>, \<^verbatim>\<open>headers\<close>, \<^verbatim>\<open>options\<close>, \<^verbatim>\<open>method\<close>, \<^verbatim>\<open>body\<close>, \<^verbatim>\<open>credentials\<close>,
  \<^verbatim>\<open>bailout\<close>, \<^verbatim>\<open>cache\<close>, \<^verbatim>\<open>has\<close>, \<^verbatim>\<open>get\<close>, \<^verbatim>\<open>set\<close>, \<^verbatim>\<open>ok\<close>, \<^verbatim>\<open>payload\<close> and
  \<^verbatim>\<open>message\<close>: a primitive, an array or a function has none of them.
\<close>

fun prop_of :: "jsval \<Rightarrow> string \<Rightarrow> jsval" where
  "prop_of (JObj ps) k = (case map_of ps k of Some v \<Rightarrow> v | None \<Rightarrow> JUndefined)"
| "prop_of v k = JUndefined"

definition nullish :: "jsval \<Rightarrow> bool" where
  "nullish v = (v = JUndefined \<or> v = JNull)"

text \<open>
  A property read throws a \<^verbatim>\<open>TypeError\<close> on \<^verbatim>\<open>undefined\<close> and \<^verbatim>\<open>null\<close>; so does
  destructuring them (lines 41 and 42). The message text is the engine's.
\<close>

definition get_prop :: "jsval \<Rightarrow> string \<Rightarrow> jsval completion" where
  "get_prop v k =
     (if nullish v then Abrupt (Exn ''TypeError'' (''Cannot read property '' @ k @ '' of undefined or null''))
      else Normal (prop_of v k))"

text \<open>
  \<^verbatim>\<open>e.message\<close> on the value \<open>e\<close> that a \<^verbatim>\<open>catch\<close> caught (lines 91 and 148): the message
  of an \<^verbatim>\<open>Error\<close>, the property read on any other value, which throws on \<^verbatim>\<open>undefined\<close>
  and \<^verbatim>\<open>null\<close> and gives \<^verbatim>\<open>undefined\<close> on a value without this property.
\<close>

fun message :: "exn \<Rightarrow> jsval completion" where
  "message (Exn name msg) = Normal (JStr msg)"
| "message (Thrown x) = get_prop x ''message''"

text \<open>\<^verbatim>\<open>xs[0]\<close> on an array: \<^verbatim>\<open>undefined\<close> when the array is empty.\<close>

fun first_elem :: "jsval \<Rightarrow> jsval" where
  "first_elem (JArr (x # xs)) = x"
| "first_elem v = JUndefined"

text \<open>The i-th variable of an array destructuring pattern: \<^verbatim>\<open>undefined\<close> past the end.\<close>

definition elem_or_undefined :: "jsval list \<Rightarrow> nat \<Rightarrow> jsval" where
  "elem_or_undefined xs i = (if i < length xs then xs ! i else JUndefined)"

text \<open>Decimal numerals, the property names of the elements of an array or a string.\<close>

fun show_nat :: "nat \<Rightarrow> string" where
  "show_nat n =
     (if n < 10 then [char_of (48 + n)]
      else show_nat (n div 10) @ [char_of (48 + n mod 10)])"

declare show_nat.simps [simp del]

definition show_int :: "int \<Rightarrow> string" where
  "show_int i = (if i < 0 then CHR ''-'' # show_nat (nat (- i)) else show_nat (nat i))"

text \<open>
  The string that a template literal puts for a primitive value (\<^verbatim>\<open>ToString\<close>); an array,
  an object or a function has to be converted to a primitive first.
\<close>

fun primitive_text :: "jsval \<Rightarrow> string option" where
  "primitive_text JUndefined = Some ''undefined''"
| "primitive_text JNull = Some ''null''"
| "primitive_text (JBool b) = Some (if b then ''true'' else ''false'')"
| "primitive_text (JNum i) = Some (show_int i)"
| "primitive_text (JStr s) = Some s"
| "primitive_text (JArr xs) = None"
| "primitive_text (JObj ps) = None"
| "primitive_text (JFun f) = None"

text \<open>
  \<open>spread v\<close> lists the properties that \<^verbatim>\<open>{...v}\<close> copies: the own enumerable properties
  of an object, the indexed elements of an array or a string, nothing for any other value
  (no error on \<^verbatim>\<open>undefined\<close> or \<^verbatim>\<open>null\<close>).
\<close>

fun spread :: "jsval \<Rightarrow> (string \<times> jsval) list" where
  "spread (JObj ps) = ps"
| "spread (JArr xs) = zip (map show_nat [0..<length xs]) xs"
| "spread (JStr s) = zip (map show_nat [0..<length s]) (map (\<lambda>c. JStr [c]) s)"
| "spread v = []"

text \<open>
  A property \<^verbatim>\<open>k: v\<close> of an object literal, after the ones before it: it replaces the value
  of a property of that name, or is added last.
\<close>

fun set_prop :: "string \<Rightarrow> jsval \<Rightarrow> (string \<times> jsval) list \<Rightarrow> (string \<times> jsval) list" where
  "set_prop k v [] = [(k, v)]"
| "set_prop k v (p # ps) = (if fst p = k then (k, v) # ps else p # set_prop k v ps)"

section \<open>The modules that \<^verbatim>\<open>middleware.js\<close> imports\<close>

text \<open>
  Modelled from the spec: the marker key \<^verbatim>\<open>CALL_API\<close> (\<^verbatim>\<open>CALL_API.js\<close> is not under
  \<^verbatim>\<open>src/\<close>). The spec calls it "a designated marker key".
\<close>

definition CALL_API :: string where
  "CALL_API = ''[CALL_API]''"

text \<open>
  Modelled from the spec: the two error classes of \<^verbatim>\<open>errors.js\<close>, which is not under
  \<^verbatim>\<open>src/\<close>. \<^verbatim>\<open>new RequestError(msg)\<close> "carries a human-readable message": the value it
  is given, a string in lines 55, 70, 91, 107 and 123, whatever \<^verbatim>\<open>e.message\<close> is in line 148;
  \<^verbatim>\<open>new InvalidRSAA(validationErrors)\<close> carries "the full list of defect descriptions".
\<close>

definition RequestError :: "jsval \<Rightarrow> jsval" where
  "RequestError msg = JObj [(''name'', JStr ''RequestError''), (''message'', msg)]"

definition InvalidRSAA :: "string list \<Rightarrow> jsval" where
  "InvalidRSAA validationErrors =
     JObj [(''name'', JStr ''InvalidRSAA''), (''validationErrors'', JArr (map JStr validationErrors))]"

text \<open>
  The pure functions imported from \<^verbatim>\<open>validation.js\<close> and \<^verbatim>\<open>util.js\<close>, which are not under
  \<^verbatim>\<open>src/\<close> either, are parameters of the model. \<^verbatim>\<open>validateRSAA\<close> returns an
  array of strings, \<^verbatim>\<open>normalizeTypeDescriptors\<close> an array that line 43 destructures.
\<close>

record helpers =
  isRSAA :: "jsval \<Rightarrow> bool"
  validateRSAA :: "jsval \<Rightarrow> string list"
  normalizeTypeDescriptors :: "jsval \<Rightarrow> jsval list"
  fakeJsonResponse :: "jsval \<Rightarrow> jsval"

section \<open>Calls to the outside\<close>

text \<open>
  Everything else the middleware calls is outside it: \<^verbatim>\<open>getState\<close>, the callables of the
  intent (\<^verbatim>\<open>bailout\<close>, \<^verbatim>\<open>endpoint\<close>, \<^verbatim>\<open>headers\<close>, \<^verbatim>\<open>options\<close>), the three methods of the
  cache, \<^verbatim>\<open>fetch\<close>, the event builder \<^verbatim>\<open>actionWith\<close> of \<^verbatim>\<open>util.js\<close> (which runs the
  payload and meta transforms of a descriptor) and the consumer \<^verbatim>\<open>next\<close>; and so is the
  conversion of an array, an object or a function to a primitive, which runs its
  \<^verbatim>\<open>toString\<close> or \<^verbatim>\<open>valueOf\<close> method (\<open>ToPrimitive\<close>: the template literal of line 91 asks
  for it when \<^verbatim>\<open>e.message\<close> is such a value).
\<close>

datatype site = BailoutFn | EndpointFn | HeadersFn | OptionsFn

datatype cache_op = Has | Get | Set

datatype call =
    GetState
  | Apply site jsval jsval
  | Cache cache_op jsval "jsval list"
  | Fetch jsval jsval
  | ActionWith jsval "jsval list"
  | Next jsval
  | ToPrimitive jsval

text \<open>
  The environment answers the n-th call of a run: with a value (for an awaited call, the
  value the promise resolves to) or with a thrown error (for an awaited call, also a
  rejection). Its answer may depend on n, so on everything that happened before:
  \<^verbatim>\<open>getState()\<close> need not return the same state twice. A run records its calls and their
  answers in order.
\<close>

type_synonym env = "nat \<Rightarrow> call \<Rightarrow> jsval completion"

type_synonym trace = "(call \<times> jsval completion) list"

type_synonym 'a comp = "trace \<Rightarrow> 'a completion \<times> trace"

definition ret :: "'a \<Rightarrow> 'a comp" where
  "ret x = (\<lambda>t. (Normal x, t))"

definition throw :: "exn \<Rightarrow> 'a comp" where
  "throw e = (\<lambda>t. (Abrupt e, t))"

definition lift :: "'a completion \<Rightarrow> 'a comp" where
  "lift r = (\<lambda>t. (r, t))"

definition ext :: "env \<Rightarrow> call \<Rightarrow> jsval comp" where
  "ext env c = (\<lambda>t. (env (length t) c, t @ [(c, env (length t) c)]))"

text \<open>Sequencing: an abrupt completion skips what follows.\<close>

definition andThen :: "'a comp \<Rightarrow> ('a \<Rightarrow> 'b comp) \<Rightarrow> 'b comp" where
  "andThen m k = (\<lambda>t. case m t of (Normal x, t') \<Rightarrow> k x t' | (Abrupt e, t') \<Rightarrow> (Abrupt e, t'))"

text \<open>
  \<^verbatim>\<open>try { body } catch (e) { handler }\<close> followed by the rest of the function: only the
  body is guarded.
\<close>

definition try_catch :: "'a comp \<Rightarrow> (exn \<Rightarrow> 'b comp) \<Rightarrow> ('a \<Rightarrow> 'b comp) \<Rightarrow> 'b comp" where
  "try_catch body handler k =
     (\<lambda>t. case body t of (Normal x, t') \<Rightarrow> k x t' | (Abrupt e, t') \<Rightarrow> handler e t')"

text \<open>
  Reading a \<^verbatim>\<open>let\<close>/\<^verbatim>\<open>const\<close> variable: a binding that its declaration has not initialised
  yet (the temporal dead zone) throws a \<^verbatim>\<open>ReferenceError\<close>.
\<close>

definition read_binding :: "string \<Rightarrow> jsval option \<Rightarrow> jsval completion" where
  "read_binding x b =
     (case b of
        None \<Rightarrow> Abrupt (Exn ''ReferenceError'' (''Cannot access '' @ x @ '' before initialization''))
      | Some v \<Rightarrow> Normal v)"

fun op_name :: "cache_op \<Rightarrow> string" where
  "op_name Has = ''has''"
| "op_name Get = ''get''"
| "op_name Set = ''set''"

text \<open>
  The method call \<^verbatim>\<open>cache.has(...)\<close>, \<^verbatim>\<open>cache.get(...)\<close>, \<^verbatim>\<open>cache.set(...)\<close> on a truthy
  \<^verbatim>\<open>cache\<close>, its arguments already evaluated: a \<^verbatim>\<open>TypeError\<close> when the property is not
  callable.
\<close>

definition call_method :: "env \<Rightarrow> cache_op \<Rightarrow> jsval \<Rightarrow> jsval list \<Rightarrow> jsval comp" where
  "call_method env m cache args =
     (if is_function (prop_of cache (op_name m)) then ext env (Cache m cache args)
      else throw (Exn ''TypeError'' (''cache.'' @ op_name m @ '' is not a function'')))"

text \<open>
  The string that a template literal \<^verbatim>\<open>`${x}`\<close> puts for \<open>x\<close>: an array, an object or a
  function is converted to a primitive first, and a \<^verbatim>\<open>TypeError\<close> is thrown when the
  outcome is no primitive.
\<close>

definition to_string :: "env \<Rightarrow> jsval \<Rightarrow> string comp" where
  "to_string env x =
     (case primitive_text x of
        Some s \<Rightarrow> ret s
      | None \<Rightarrow>
          andThen (ext env (ToPrimitive x)) (\<lambda>p.
            case primitive_text p of
              Some s \<Rightarrow> ret s
            | None \<Rightarrow> throw (Exn ''TypeError'' ''Cannot convert object to primitive value'')))"

section \<open>The middleware\<close>

text \<open>The local variables of lines 40 to 43 (\<open>http_method\<close> is \<^verbatim>\<open>method\<close>).\<close>

record vars =
  endpoint :: jsval
  headers :: jsval
  options :: jsval
  http_method :: jsval
  body :: jsval
  credentials :: jsval
  bailout :: jsval
  types :: jsval
  cache :: jsval
  requestType :: jsval
  successType :: jsval
  failureType :: jsval

text \<open>
  Lines 52 to 59, and again at 67, 88, 104, 120 and 145:
  \<^verbatim>\<open>return next(await actionWith({...requestType, payload: new RequestError(msg), error: true}, [action, getState()]))\<close>.
  \<open>errorDescriptor\<close> is the object literal.
\<close>

definition errorDescriptor :: "vars \<Rightarrow> jsval \<Rightarrow> jsval" where
  "errorDescriptor v msg =
     JObj (set_prop ''error'' (JBool True)
            (set_prop ''payload'' (RequestError msg) (spread (requestType v))))"

definition requestError :: "env \<Rightarrow> jsval \<Rightarrow> vars \<Rightarrow> jsval \<Rightarrow> jsval comp" where
  "requestError env action v msg =
     andThen (ext env GetState) (\<lambda>s.
     andThen (ext env (ActionWith (errorDescriptor v msg) [action, s])) (\<lambda>ev.
     ext env (Next ev)))"

text \<open>
  Lines 155 to 173. In the \<^verbatim>\<open>res.ok\<close> branch, \<^verbatim>\<open>const action = await actionWith(successType,
  [action, getState(), res])\<close> declares \<^verbatim>\<open>action\<close> in the block, so the \<^verbatim>\<open>action\<close> of
  its own initialiser is that block's binding (\<open>action'\<close> below), not the parameter of the
  middleware, and it is read before it is initialised: by the rules of the language for
  \<^verbatim>\<open>const\<close>, the read throws, before \<^verbatim>\<open>getState\<close> or \<^verbatim>\<open>actionWith\<close> is called. The rest of
  the branch is what the source goes on with.
\<close>

definition processResponse :: "env \<Rightarrow> jsval \<Rightarrow> vars \<Rightarrow> jsval \<Rightarrow> jsval comp" where
  "processResponse env action v res =
     andThen (lift (get_prop res ''ok'')) (\<lambda>ok.
       if truthy ok then
         andThen (lift (read_binding ''action'' None)) (\<lambda>action'.
         andThen (ext env GetState) (\<lambda>s.
         andThen (ext env (ActionWith (successType v) [action', s, res])) (\<lambda>action'.
         andThen (if truthy (cache v)
                  then andThen (lift (get_prop action' ''payload'')) (\<lambda>payload.
                         call_method env Set (cache v) [endpoint v, payload])
                  else ret JUndefined) (\<lambda>_.
         ext env (Next action')))))
       else
         andThen (ext env GetState) (\<lambda>s.
         andThen (ext env (ActionWith
            (JObj (set_prop ''error'' (JBool True) (spread (failureType v))))
            [action, s, res])) (\<lambda>ev.
         ext env (Next ev))))"

text \<open>
  The second argument of \<^verbatim>\<open>fetch\<close>, line 140:
  \<^verbatim>\<open>{ ...options, method, body, credentials, headers: headers || {} }\<close>.
\<close>

definition fetchInit :: "vars \<Rightarrow> jsval" where
  "fetchInit v =
     JObj (set_prop ''headers'' (if truthy (headers v) then headers v else JObj [])
            (set_prop ''credentials'' (credentials v)
              (set_prop ''body'' (body v)
                (set_prop ''method'' (http_method v) (spread (options v))))))"

text \<open>
  Lines 143 to 152, the \<^verbatim>\<open>catch\<close> block of the API call: \<^verbatim>\<open>new RequestError(e.message)\<close> is
  evaluated first, and what it throws leaves the middleware.
\<close>

definition fetchFailed :: "env \<Rightarrow> jsval \<Rightarrow> vars \<Rightarrow> exn \<Rightarrow> jsval comp" where
  "fetchFailed env action v e =
     andThen (lift (message e)) (\<lambda>msg.
     requestError env action v msg)"

text \<open>Lines 137 to 153: the API call.\<close>

definition callApi :: "env \<Rightarrow> jsval \<Rightarrow> vars \<Rightarrow> jsval comp" where
  "callApi env action v =
     try_catch (ext env (Fetch (endpoint v) (fetchInit v)))
       (\<lambda>e. fetchFailed env action v e)
       (\<lambda>res. processResponse env action v res)"

text \<open>Lines 131 to 135: the request FSA.\<close>

definition dispatchRequest :: "env \<Rightarrow> jsval \<Rightarrow> vars \<Rightarrow> jsval comp" where
  "dispatchRequest env action v =
     andThen (ext env GetState) (\<lambda>s.
     andThen (ext env (ActionWith (requestType v) [action, s])) (\<lambda>ev.
     andThen (ext env (Next ev)) (\<lambda>_.
     callApi env action v)))"

text \<open>Lines 115 to 129: \<^verbatim>\<open>[CALL_API].options\<close>.\<close>

definition processOptions :: "env \<Rightarrow> jsval \<Rightarrow> vars \<Rightarrow> jsval comp" where
  "processOptions env action v =
     (if is_function (options v) then
        try_catch (andThen (ext env GetState) (\<lambda>s. ext env (Apply OptionsFn (options v) s)))
          (\<lambda>e. requestError env action v (JStr ''[CALL_API].options function failed''))
          (\<lambda>r. dispatchRequest env action (v\<lparr>options := r\<rparr>))
      else dispatchRequest env action v)"

text \<open>Lines 99 to 113: \<^verbatim>\<open>[CALL_API].headers\<close>.\<close>

definition processHeaders :: "env \<Rightarrow> jsval \<Rightarrow> vars \<Rightarrow> jsval comp" where
  "processHeaders env action v =
     (if is_function (headers v) then
        try_catch (andThen (ext env GetState) (\<lambda>s. ext env (Apply HeadersFn (headers v) s)))
          (\<lambda>e. requestError env action v (JStr ''[CALL_API].headers function failed''))
          (\<lambda>r. processOptions env action (v\<lparr>headers := r\<rparr>))
      else processOptions env action v)"

text \<open>
  Lines 87 to 96, the \<^verbatim>\<open>catch\<close> block of the cache:
  \<^verbatim>\<open>new RequestError(`[CALL_API].cache API function failed: ${e.message}`)\<close> is evaluated
  first, and what it throws leaves the middleware.
\<close>

definition cacheFailed :: "env \<Rightarrow> jsval \<Rightarrow> vars \<Rightarrow> exn \<Rightarrow> jsval comp" where
  "cacheFailed env action v e =
     andThen (lift (message e)) (\<lambda>msg.
     andThen (to_string env msg) (\<lambda>text.
     requestError env action v (JStr (''[CALL_API].cache API function failed: '' @ text))))"

text \<open>
  Lines 78 to 97: the cache. The body of the \<^verbatim>\<open>try\<close> either returns from the middleware
  (\<open>Some\<close>: the value of \<^verbatim>\<open>next(...)\<close>) or falls through (\<open>None\<close>). In line 84 the array
  \<^verbatim>\<open>[action, getState(), fakeJsonResponse(await cache.get(endpoint))]\<close> calls \<^verbatim>\<open>getState\<close>
  before \<^verbatim>\<open>cache.get\<close>.
\<close>

definition probeCache :: "helpers \<Rightarrow> env \<Rightarrow> jsval \<Rightarrow> vars \<Rightarrow> jsval comp" where
  "probeCache h env action v =
     (if truthy (cache v) then
        try_catch
          (andThen (call_method env Has (cache v) [endpoint v]) (\<lambda>hit.
             if truthy hit then
               andThen (ext env GetState) (\<lambda>s.
               andThen (call_method env Get (cache v) [endpoint v]) (\<lambda>cached.
               andThen (ext env (ActionWith (successType v)
                          [action, s, fakeJsonResponse h cached])) (\<lambda>ev.
               andThen (ext env (Next ev)) (\<lambda>r.
               ret (Some r)))))
             else ret None))
          (\<lambda>e. cacheFailed env action v e)
          (\<lambda>returned. case returned of
             Some r \<Rightarrow> ret r
           | None \<Rightarrow> processHeaders env action v)
      else processHeaders env action v)"

text \<open>Lines 62 to 76: \<^verbatim>\<open>[CALL_API].endpoint\<close>.\<close>

definition processEndpoint :: "helpers \<Rightarrow> env \<Rightarrow> jsval \<Rightarrow> vars \<Rightarrow> jsval comp" where
  "processEndpoint h env action v =
     (if is_function (endpoint v) then
        try_catch (andThen (ext env GetState) (\<lambda>s. ext env (Apply EndpointFn (endpoint v) s)))
          (\<lambda>e. requestError env action v (JStr ''[CALL_API].endpoint function failed''))
          (\<lambda>r. probeCache h env action (v\<lparr>endpoint := r\<rparr>))
      else probeCache h env action v)"

text \<open>
  Lines 45 to 60: the bailout. The body of the \<^verbatim>\<open>try\<close> yields whether the middleware
  returns (with \<^verbatim>\<open>undefined\<close>).
\<close>

definition checkBailout :: "helpers \<Rightarrow> env \<Rightarrow> jsval \<Rightarrow> vars \<Rightarrow> jsval comp" where
  "checkBailout h env action v =
     try_catch
       (if is_boolean (bailout v) \<and> truthy (bailout v) then ret True
        else if is_function (bailout v) then
          andThen (ext env GetState) (\<lambda>s.
          andThen (ext env (Apply BailoutFn (bailout v) s)) (\<lambda>r.
          ret (truthy r)))
        else ret False)
       (\<lambda>e. requestError env action v (JStr ''[CALL_API].bailout function failed''))
       (\<lambda>stop. if stop then ret JUndefined else processEndpoint h env action v)"

text \<open>
  Lines 39 to 43: the destructuring of the validated RSAA, with the default \<^verbatim>\<open>options = {}\<close>
  for an \<^verbatim>\<open>undefined\<close> property. Destructuring \<^verbatim>\<open>undefined\<close> or \<^verbatim>\<open>null\<close> throws.
\<close>

definition destructure :: "helpers \<Rightarrow> jsval \<Rightarrow> vars" where
  "destructure h callAPI =
     (let ts = normalizeTypeDescriptors h (prop_of callAPI ''types'') in
      \<lparr> endpoint = prop_of callAPI ''endpoint'',
        headers = prop_of callAPI ''headers'',
        options = (if prop_of callAPI ''options'' = JUndefined then JObj []
                   else prop_of callAPI ''options''),
        http_method = prop_of callAPI ''method'',
        body = prop_of callAPI ''body'',
        credentials = prop_of callAPI ''credentials'',
        bailout = prop_of callAPI ''bailout'',
        types = prop_of callAPI ''types'',
        cache = prop_of callAPI ''cache'',
        requestType = elem_or_undefined ts 0,
        successType = elem_or_undefined ts 1,
        failureType = elem_or_undefined ts 2 \<rparr>)"

definition parseRSAA :: "helpers \<Rightarrow> jsval \<Rightarrow> vars completion" where
  "parseRSAA h action =
     (case get_prop action CALL_API of
        Abrupt e \<Rightarrow> Abrupt e
      | Normal callAPI \<Rightarrow>
          (case get_prop callAPI ''endpoint'' of
             Abrupt e \<Rightarrow> Abrupt e
           | Normal ep \<Rightarrow> Normal (destructure h callAPI)))"

text \<open>
  Lines 21 to 37: the error FSA of an invalid RSAA. \<open>requestType0\<close> is the variable
  \<^verbatim>\<open>requestType\<close> of line 26, \<open>requestType1\<close> its value after line 29.
\<close>

definition dispatchInvalid :: "env \<Rightarrow> jsval \<Rightarrow> string list \<Rightarrow> jsval comp" where
  "dispatchInvalid env action validationErrors =
     andThen (lift (get_prop action CALL_API)) (\<lambda>callAPI.
     andThen (lift (get_prop callAPI ''types'')) (\<lambda>ts.
       if truthy ts \<and> isArray ts then
         (let requestType0 = first_elem ts;
              requestType1 = (if truthy requestType0 \<and> truthy (prop_of requestType0 ''type'')
                              then prop_of requestType0 ''type'' else requestType0)
          in andThen (ext env (Next (JObj [(''type'', requestType1),
                                           (''payload'', InvalidRSAA validationErrors),
                                           (''error'', JBool True)]))) (\<lambda>_.
             ret JUndefined))
       else ret JUndefined))"

text \<open>
  The middleware, lines 14 to 175: \<^verbatim>\<open>apiMiddleware({ getState })(next)(action)\<close>. The
  result is the settlement of the promise the \<^verbatim>\<open>async\<close> function returns (\<open>Normal\<close>:
  resolved, \<open>Abrupt\<close>: rejected) and the calls made.
\<close>

definition apiMiddleware :: "helpers \<Rightarrow> env \<Rightarrow> jsval \<Rightarrow> jsval comp" where
  "apiMiddleware h env action =
     (if \<not> isRSAA h action then ext env (Next action)
      else if validateRSAA h action \<noteq> [] then dispatchInvalid env action (validateRSAA h action)
      else andThen (lift (parseRSAA h action)) (\<lambda>v. checkBailout h env action v))"

text \<open>The events of a run (the arguments of \<^verbatim>\<open>next\<close>) and its transport calls.\<close>

fun emitted :: "trace \<Rightarrow> jsval list" where
  "emitted [] = []"
| "emitted ((Next ev, r) # t) = ev # emitted t"
| "emitted (c # t) = emitted t"

fun fetches :: "trace \<Rightarrow> (jsval \<times> jsval) list" where
  "fetches [] = []"
| "fetches ((Fetch url init, r) # t) = (url, init) # fetches t"
| "fetches (c # t) = fetches t"

section \<open>Reasoning about the calls of a run\<close>

text \<open>
  \<open>yields m Q\<close>: from any trace, the computation \<open>m\<close> only appends calls to it, and \<open>Q\<close>
  holds of its completion and of the calls it appended.
\<close>

definition yields :: "'a comp \<Rightarrow> ('a completion \<Rightarrow> trace \<Rightarrow> bool) \<Rightarrow> bool" where
  "yields m Q = (\<forall>t. \<exists>new. snd (m t) = t @ new \<and> Q (fst (m t)) new)"

text \<open>
  Kinds of calls: \<open>quiet\<close>, the calls of \<^verbatim>\<open>getState\<close>, \<^verbatim>\<open>actionWith\<close> and \<^verbatim>\<open>next\<close>, and the
  conversion to a primitive; \<open>late\<close>, the calls after the cache probe (the quiet ones,
  \<^verbatim>\<open>fetch\<close>, the \<^verbatim>\<open>headers\<close> and \<^verbatim>\<open>options\<close> callables); \<open>early\<close>, the calls before it.
\<close>

fun quiet :: "call \<times> jsval completion \<Rightarrow> bool" where
  "quiet (GetState, r) = True"
| "quiet (Apply s f x, r) = False"
| "quiet (Cache m c args, r) = False"
| "quiet (Fetch url init, r) = False"
| "quiet (ActionWith d args, r) = True"
| "quiet (Next ev, r) = True"
| "quiet (ToPrimitive x, r) = True"

fun late :: "call \<times> jsval completion \<Rightarrow> bool" where
  "late (GetState, r) = True"
| "late (Apply s f x, r) = (s = HeadersFn \<or> s = OptionsFn)"
| "late (Cache m c args, r) = False"
| "late (Fetch url init, r) = True"
| "late (ActionWith d args, r) = True"
| "late (Next ev, r) = True"
| "late (ToPrimitive x, r) = True"

fun early :: "call \<times> jsval completion \<Rightarrow> bool" where
  "early (GetState, r) = True"
| "early (Apply s f x, r) = (s = BailoutFn \<or> s = EndpointFn)"
| "early (Cache m c args, r) = False"
| "early (Fetch url init, r) = False"
| "early (ActionWith d args, r) = False"
| "early (Next ev, r) = False"
| "early (ToPrimitive x, r) = False"

fun is_set :: "call \<times> jsval completion \<Rightarrow> bool" where
  "is_set (Cache m c args, r) = (m = Set)"
| "is_set (GetState, r) = False"
| "is_set (Apply s f x, r) = False"
| "is_set (Fetch url init, r) = False"
| "is_set (ActionWith d args, r) = False"
| "is_set (Next ev, r) = False"
| "is_set (ToPrimitive x, r) = False"

text \<open>
  \<open>each_after ok before t\<close>: every call of the trace \<open>t\<close> is allowed by \<open>ok\<close> after the
  calls made before it (\<open>before\<close> and the part of \<open>t\<close> in front of it, the latest first).
\<close>

fun each_after :: "(trace \<Rightarrow> call \<times> jsval completion \<Rightarrow> bool) \<Rightarrow> trace \<Rightarrow> trace \<Rightarrow> bool" where
  "each_after ok before [] = True"
| "each_after ok before (x # t) = (ok before x \<and> each_after ok (x # before) t)"

text \<open>
  An event that goes to \<^verbatim>\<open>next\<close> is the value that the call just before, a call of
  \<^verbatim>\<open>actionWith\<close>, resolved to.
\<close>

definition built :: "trace \<Rightarrow> call \<times> jsval completion \<Rightarrow> bool" where
  "built before x =
     (case fst x of
        Next ev \<Rightarrow>
          (case before of
             [] \<Rightarrow> False
           | p # _ \<Rightarrow> (case fst p of ActionWith d args \<Rightarrow> snd p = Normal ev | _ \<Rightarrow> False))
      | _ \<Rightarrow> True)"

text \<open>
  A call of \<^verbatim>\<open>cache.get\<close> comes after a call of \<^verbatim>\<open>cache.has\<close> on the same cache with the
  same arguments that resolved to a truthy value, one read of the state between them
  (line 84).
\<close>

definition probed :: "trace \<Rightarrow> call \<times> jsval completion \<Rightarrow> bool" where
  "probed before x =
     (case fst x of
        Cache m c args \<Rightarrow>
          (if m = Get then
             (case before of
                s # p # _ \<Rightarrow>
                  fst s = GetState \<and> fst p = Cache Has c args \<and>
                  (case snd p of Normal hit \<Rightarrow> truthy hit | Abrupt e \<Rightarrow> False)
              | _ \<Rightarrow> False)
           else True)
      | _ \<Rightarrow> True)"

text \<open>\<open>chained ok new\<close>: the calls \<open>new\<close> are allowed by \<open>ok\<close> after any calls before them.\<close>

definition chained :: "(trace \<Rightarrow> call \<times> jsval completion \<Rightarrow> bool) \<Rightarrow> trace \<Rightarrow> bool" where
  "chained ok new = (\<forall>before. each_after ok before new)"

text \<open>
  The calls \<open>new\<close> keep the order of the event builder and of the cache, and none of them
  is a call of \<^verbatim>\<open>cache.set\<close>.
\<close>

definition orderly :: "trace \<Rightarrow> bool" where
  "orderly new = (chained built new \<and> chained probed new \<and> list_all (\<lambda>x. \<not> is_set x) new)"

text \<open>
  The arguments of the transport calls among \<open>new\<close>, for the local variables \<open>v\<close>:
  \<^verbatim>\<open>method\<close>, \<^verbatim>\<open>body\<close> and \<^verbatim>\<open>credentials\<close> are those of \<open>v\<close>, and \<^verbatim>\<open>headers\<close> is
  \<^verbatim>\<open>headers || {}\<close>. In \<open>fetch_resolved\<close> the \<^verbatim>\<open>headers\<close> of \<open>v\<close> are the resolved ones (after
  line 113); in \<open>fetch_args\<close> they are those of the intent, and when they are a callable,
  the resolved headers are what a call of it among \<open>new\<close> returned.
\<close>

definition fetch_resolved :: "vars \<Rightarrow> trace \<Rightarrow> bool" where
  "fetch_resolved v new =
     (\<forall>url init r. (Fetch url init, r) \<in> set new \<longrightarrow>
        prop_of init ''method'' = http_method v \<and>
        prop_of init ''body'' = body v \<and>
        prop_of init ''credentials'' = credentials v \<and>
        prop_of init ''headers'' = (if truthy (headers v) then headers v else JObj []))"

definition fetch_args :: "vars \<Rightarrow> trace \<Rightarrow> bool" where
  "fetch_args v new =
     (\<forall>url init r. (Fetch url init, r) \<in> set new \<longrightarrow>
        prop_of init ''method'' = http_method v \<and>
        prop_of init ''body'' = body v \<and>
        prop_of init ''credentials'' = credentials v \<and>
        (\<exists>resolved.
           prop_of init ''headers'' = (if truthy resolved then resolved else JObj []) \<and>
           (if is_function (headers v)
            then \<exists>s. (Apply HeadersFn (headers v) s, Normal resolved) \<in> set new
            else resolved = headers v)))"

text \<open>
  The collaborators that a run relies on: \<^verbatim>\<open>getState\<close>, \<^verbatim>\<open>actionWith\<close> and \<^verbatim>\<open>next\<close>. An
  environment is \<open>reliable\<close> when their calls never fail.
\<close>

fun collaborator :: "call \<Rightarrow> bool" where
  "collaborator GetState = True"
| "collaborator (Apply s f x) = False"
| "collaborator (Cache m c args) = False"
| "collaborator (Fetch url init) = False"
| "collaborator (ActionWith d args) = True"
| "collaborator (Next ev) = True"
| "collaborator (ToPrimitive x) = False"

definition reliable :: "env \<Rightarrow> bool" where
  "reliable env = (\<forall>n c. collaborator c \<longrightarrow> (\<exists>x. env n c = Normal x))"

text \<open>
  The shape of a run on a cache hit: as soon as a call of \<^verbatim>\<open>cache.has\<close> among \<open>new\<close>
  resolved to a truthy value, \<open>new\<close> ends with this call, a read of the state, the call of
  \<^verbatim>\<open>cache.get\<close> with the same arguments, the call of \<^verbatim>\<open>actionWith\<close> on the success
  descriptor and the fake response, and the call of \<^verbatim>\<open>next\<close> on its result, whose result
  is the result of the middleware; the calls before are \<open>early\<close> ones.
\<close>

definition hit_run :: "helpers \<Rightarrow> jsval \<Rightarrow> vars \<Rightarrow> jsval completion \<Rightarrow> trace \<Rightarrow> bool" where
  "hit_run h action v out new =
     (\<forall>c args hit. (Cache Has c args, Normal hit) \<in> set new \<and> truthy hit \<longrightarrow>
        (\<exists>pre s cached ev r.
           new = pre @ [(Cache Has c args, Normal hit), (GetState, Normal s),
                        (Cache Get c args, Normal cached),
                        (ActionWith (successType v) [action, s, fakeJsonResponse h cached], Normal ev),
                        (Next ev, Normal r)] \<and>
           list_all early pre \<and> out = Normal r))"

text \<open>
  The calls whose failure the middleware answers with a \<^verbatim>\<open>RequestError\<close> event (\<open>reported\<close>):
  the callables of the intent (lines 47, 66, 103 and 119), the cache probe (lines 81 and
  84) and the transport call (line 139). The \<^verbatim>\<open>catch\<close> blocks of the last two read what
  was thrown (\<open>probe_or_fetch\<close>).
\<close>

fun reported :: "call \<Rightarrow> bool" where
  "reported GetState = False"
| "reported (Apply s f x) = True"
| "reported (Cache m c args) = (m = Has \<or> m = Get)"
| "reported (Fetch url init) = True"
| "reported (ActionWith d args) = False"
| "reported (Next ev) = False"
| "reported (ToPrimitive x) = False"

fun probe_or_fetch :: "call \<Rightarrow> bool" where
  "probe_or_fetch GetState = False"
| "probe_or_fetch (Apply s f x) = False"
| "probe_or_fetch (Cache m c args) = (m = Has \<or> m = Get)"
| "probe_or_fetch (Fetch url init) = True"
| "probe_or_fetch (ActionWith d args) = False"
| "probe_or_fetch (Next ev) = False"
| "probe_or_fetch (ToPrimitive x) = False"

text \<open>
  The message of the \<^verbatim>\<open>RequestError\<close> for a failed call: the fixed texts of lines 55, 70,
  107 and 123 for the callables; for the cache probe and the transport, the texts of
  lines 91 and 148 when the \<^verbatim>\<open>message\<close> of what was thrown is the string \<open>cause\<close>.
\<close>

fun fixed_message :: "site \<Rightarrow> string" where
  "fixed_message BailoutFn = ''[CALL_API].bailout function failed''"
| "fixed_message EndpointFn = ''[CALL_API].endpoint function failed''"
| "fixed_message HeadersFn = ''[CALL_API].headers function failed''"
| "fixed_message OptionsFn = ''[CALL_API].options function failed''"

fun failure_message :: "call \<Rightarrow> string \<Rightarrow> string" where
  "failure_message (Apply s f x) cause = fixed_message s"
| "failure_message (Cache m c args) cause = ''[CALL_API].cache API function failed: '' @ cause"
| "failure_message c cause = cause"

text \<open>
  The shape of a run after such a failure: \<open>new\<close> ends with the failed call, a read of the
  state, the call of \<^verbatim>\<open>actionWith\<close> on the error descriptor with that message, and the call
  of \<^verbatim>\<open>next\<close> on its result, whose result is the result of the middleware. For the cache
  probe and the transport this is the shape when the \<^verbatim>\<open>message\<close> of what was thrown is a
  string.
\<close>

definition failure_run :: "jsval \<Rightarrow> vars \<Rightarrow> jsval completion \<Rightarrow> trace \<Rightarrow> bool" where
  "failure_run action v out new =
     (\<forall>c e cause. (c, Abrupt e) \<in> set new \<and> reported c \<and>
          (probe_or_fetch c \<longrightarrow> message e = Normal (JStr cause)) \<longrightarrow>
        (\<exists>pre s ev r.
           new = pre @ [(c, Abrupt e), (GetState, Normal s),
                        (ActionWith (errorDescriptor v (JStr (failure_message c cause))) [action, s],
                         Normal ev),
                        (Next ev, Normal r)] \<and>
           out = Normal r))"

text \<open>
  What the \<^verbatim>\<open>catch\<close> blocks of lines 87 and 143 do with the thrown value \<open>e\<close> when its
  \<^verbatim>\<open>message\<close> is a string: the three calls above, the message after the text \<open>before\<close>.
\<close>

definition reports :: "jsval \<Rightarrow> vars \<Rightarrow> string \<Rightarrow> exn \<Rightarrow> jsval completion \<Rightarrow> trace \<Rightarrow> bool" where
  "reports action v before e out new =
     (\<forall>cause. message e = Normal (JStr cause) \<longrightarrow>
        (\<exists>s ev r.
           new = [(GetState, Normal s),
                  (ActionWith (errorDescriptor v (JStr (before @ cause))) [action, s], Normal ev),
                  (Next ev, Normal r)] \<and>
           out = Normal r))"

section \<open>A sample world\<close>

text \<open>
  Modelled from the spec: \<^verbatim>\<open>isRSAA\<close> of \<^verbatim>\<open>validation.js\<close>, which is not under \<^verbatim>\<open>src/\<close>.
  "Recognition is purely structural (presence of a designated marker key)."
\<close>

definition isRSAA_spec :: "jsval \<Rightarrow> bool" where
  "isRSAA_spec action = (case action of JObj ps \<Rightarrow> map_of ps CALL_API \<noteq> None | _ \<Rightarrow> False)"

fun is_identifier :: "jsval \<Rightarrow> bool" where
  "is_identifier (JStr s) = True"
| "is_identifier v = False"

fun is_plain_object :: "jsval \<Rightarrow> bool" where
  "is_plain_object (JObj ps) = True"
| "is_plain_object v = False"

fun triple :: "jsval \<Rightarrow> jsval list option" where
  "triple (JArr ds) = (if length ds = 3 then Some ds else None)"
| "triple v = None"

text \<open>
  Modelled from the spec: \<^verbatim>\<open>validateRSAA\<close> of \<^verbatim>\<open>validation.js\<close>, which is not under
  \<^verbatim>\<open>src/\<close>. The checks are those of the spec's section 4.2, in its order, all of them run;
  the spec does not give the wording of the defects, and names the accepted credentials
  no further than "one of the accepted policy values" (here those of \<^verbatim>\<open>fetch\<close>).
\<close>

definition descriptor_defects :: "jsval \<Rightarrow> string list" where
  "descriptor_defects d =
     (if is_identifier d then []
      else if is_plain_object d \<and> is_identifier (prop_of d ''type'') then
        (if prop_of d ''payload'' = JUndefined \<or> is_function (prop_of d ''payload'') then []
         else [''payload of a type descriptor must be a callable'']) @
        (if prop_of d ''meta'' = JUndefined \<or> is_function (prop_of d ''meta'') then []
         else [''meta of a type descriptor must be a callable''])
      else [''a type descriptor must be an identifier or a record with an identifier as type''])"

definition validateRSAA_spec :: "jsval \<Rightarrow> string list" where
  "validateRSAA_spec action =
     (let callAPI = prop_of action CALL_API in
        (case triple (prop_of callAPI ''types'') of
           Some ds \<Rightarrow> concat (map descriptor_defects ds)
         | None \<Rightarrow> [''types must be present and be an ordered triple'']) @
        (if prop_of callAPI ''bailout'' = JUndefined \<or> is_boolean (prop_of callAPI ''bailout'')
            \<or> is_function (prop_of callAPI ''bailout'') then []
         else [''bailout must be boolean or callable'']) @
        (if is_identifier (prop_of callAPI ''endpoint'') \<or> is_function (prop_of callAPI ''endpoint'') then []
         else [''endpoint must be present and be a string or callable'']) @
        (if prop_of callAPI ''headers'' = JUndefined \<or> is_plain_object (prop_of callAPI ''headers'')
            \<or> is_function (prop_of callAPI ''headers'') then []
         else [''headers must be a mapping or callable'']) @
        (if prop_of callAPI ''credentials'' \<in> {JUndefined, JStr ''omit'', JStr ''same-origin'', JStr ''include''} then []
         else [''credentials must be one of the accepted policy values'']) @
        (if prop_of callAPI ''cache'' = JUndefined
            \<or> (is_function (prop_of (prop_of callAPI ''cache'') ''has'')
               \<and> is_function (prop_of (prop_of callAPI ''cache'') ''get'')
               \<and> is_function (prop_of (prop_of callAPI ''cache'') ''set'')) then []
         else [''cache must expose has, get and set as callables'']))"

text \<open>
  Modelled from the spec: \<^verbatim>\<open>normalizeTypeDescriptors\<close> of \<^verbatim>\<open>util.js\<close>, which is not under
  \<^verbatim>\<open>src/\<close>. "Normalized form is always the record shape with optional transforms
  defaulting to 'take the source payload unchanged' (for success/failure) and 'undefined'
  (for request)." The default transform is the callable \<open>JFun 0\<close>.
\<close>

definition defaultPayload :: jsval where
  "defaultPayload = JFun 0"

definition as_record :: "jsval \<Rightarrow> (string \<times> jsval) list" where
  "as_record d = (if is_identifier d then [(''type'', d)] else spread d)"

definition with_default :: "(string \<times> jsval) list \<Rightarrow> (string \<times> jsval) list" where
  "with_default ps = (if map_of ps ''payload'' = None then ps @ [(''payload'', defaultPayload)] else ps)"

definition normalizeTypeDescriptors_spec :: "jsval \<Rightarrow> jsval list" where
  "normalizeTypeDescriptors_spec ts =
     (case triple ts of
        Some ds \<Rightarrow> [JObj (as_record (ds ! 0)), JObj (with_default (as_record (ds ! 1))),
                    JObj (with_default (as_record (ds ! 2)))]
      | None \<Rightarrow> [])"

text \<open>
  Modelled from the spec: \<^verbatim>\<open>fakeJsonResponse\<close> of \<^verbatim>\<open>util.js\<close>, which is not under \<^verbatim>\<open>src/\<close>:
  "a synthetic successful response (status 200-equivalent, body = cached value)".
\<close>

definition fakeJsonResponse_spec :: "jsval \<Rightarrow> jsval" where
  "fakeJsonResponse_spec cached = JObj [(''ok'', JBool True), (''status'', JNum 200), (''body'', cached)]"

definition sample :: helpers where
  "sample = \<lparr> isRSAA = isRSAA_spec, validateRSAA = validateRSAA_spec,
              normalizeTypeDescriptors = normalizeTypeDescriptors_spec,
              fakeJsonResponse = fakeJsonResponse_spec \<rparr>"

text \<open>
  Modelled from the spec: the event builder \<^verbatim>\<open>actionWith\<close> of \<^verbatim>\<open>util.js\<close>, which is not under
  \<^verbatim>\<open>src/\<close>, on descriptors without transforms of their own: the default transform of a
  success or failure descriptor takes the body of the response, any other payload stays.
\<close>

definition buildEvent :: "jsval \<Rightarrow> jsval list \<Rightarrow> jsval" where
  "buildEvent d args =
     (if prop_of d ''payload'' = defaultPayload
      then JObj (set_prop ''payload'' (prop_of (elem_or_undefined args 2) ''body'') (spread d))
      else d)"

text \<open>
  A world to run the middleware in. The state counts the calls made so far; the callable
  \<open>JFun 21\<close> returns \<^verbatim>\<open>true\<close>, \<open>JFun 22\<close> throws, \<open>JFun 23\<close> returns the URL \<^verbatim>\<open>/x\<close>, \<open>JFun 24\<close>
  returns a header mapping; a cache whose \<^verbatim>\<open>has\<close> is \<open>JFun 11\<close> holds every key, one whose
  \<^verbatim>\<open>has\<close> is \<open>JFun 12\<close> fails with an \<^verbatim>\<open>Error\<close>, one whose \<^verbatim>\<open>has\<close> is \<open>JFun 15\<close> rejects
  with the string \<^verbatim>\<open>down\<close>, one whose \<^verbatim>\<open>has\<close> is \<open>JFun 16\<close> rejects with \<^verbatim>\<open>undefined\<close>, any
  other cache is empty; the server answers \<^verbatim>\<open>/x\<close> with an ok response, \<^verbatim>\<open>/missing\<close> with a
  404, the transport rejects with a string for \<^verbatim>\<open>/reset\<close>, and fails with a \<^verbatim>\<open>TypeError\<close>
  for any other URL; \<^verbatim>\<open>next\<close> returns the event it is given.
\<close>

definition world :: env where
  "world n c =
     (case c of
        GetState \<Rightarrow> Normal (JObj [(''calls'', JNum (int n))])
      | Apply s f x \<Rightarrow>
          (if f = JFun 21 then Normal (JBool True)
           else if f = JFun 22 then Abrupt (Exn ''Error'' ''boom'')
           else if f = JFun 23 then Normal (JStr ''/x'')
           else if f = JFun 24 then Normal (JObj [(''Accept'', JStr ''application/json'')])
           else Normal JUndefined)
      | Cache m store args \<Rightarrow>
          (case m of
             Has \<Rightarrow> (if prop_of store ''has'' = JFun 11 then Normal (JBool True)
                     else if prop_of store ''has'' = JFun 12 then Abrupt (Exn ''Error'' ''cache down'')
                     else if prop_of store ''has'' = JFun 15 then Abrupt (Thrown (JStr ''down''))
                     else if prop_of store ''has'' = JFun 16 then Abrupt (Thrown JUndefined)
                     else Normal (JBool False))
           | Get \<Rightarrow> Normal (JObj [(''a'', JNum 1)])
           | Set \<Rightarrow> Normal JUndefined)
      | Fetch url init \<Rightarrow>
          (if url = JStr ''/x''
           then Normal (JObj [(''ok'', JBool True), (''status'', JNum 200), (''body'', JObj [(''a'', JNum 1)])])
           else if url = JStr ''/missing''
           then Normal (JObj [(''ok'', JBool False), (''status'', JNum 404), (''body'', JStr ''not found'')])
           else if url = JStr ''/reset''
           then Abrupt (Thrown (JStr ''connection reset''))
           else Abrupt (Exn ''TypeError'' ''Failed to fetch''))
      | ActionWith d args \<Rightarrow> Normal (buildEvent d args)
      | Next ev \<Rightarrow> Normal ev
      | ToPrimitive x \<Rightarrow> Normal (JStr ''[object Object]''))"

text \<open>
  Sample actions: \<open>rsaa intent\<close> is \<^verbatim>\<open>{ [CALL_API]: { ...intent } }\<close>, and \<open>basic\<close> the
  intent of the spec's example, \<^verbatim>\<open>{endpoint: "/x", method: "GET", types: ["REQ","OK","FAIL"]}\<close>.
\<close>

definition rsaa :: "(string \<times> jsval) list \<Rightarrow> jsval" where
  "rsaa intent = JObj [(CALL_API, JObj intent)]"

definition basic :: "(string \<times> jsval) list" where
  "basic = [(''endpoint'', JStr ''/x''), (''method'', JStr ''GET''),
            (''types'', JArr [JStr ''REQ'', JStr ''OK'', JStr ''FAIL''])]"

definition full_cache :: jsval where
  "full_cache = JObj [(''has'', JFun 11), (''get'', JFun 13), (''set'', JFun 14)]"

definition broken_cache :: jsval where
  "broken_cache = JObj [(''has'', JFun 12), (''get'', JFun 13), (''set'', JFun 14)]"

definition empty_cache :: jsval where
  "empty_cache = JObj [(''has'', JFun 10), (''get'', JFun 13), (''set'', JFun 14)]"

definition rejecting_cache :: jsval where
  "rejecting_cache = JObj [(''has'', JFun 15), (''get'', JFun 13), (''set'', JFun 14)]"

definition silent_cache :: jsval where
  "silent_cache = JObj [(''has'', JFun 16), (''get'', JFun 13), (''set'', JFun 14)]"

section \<open>Objects and the sample world\<close>

lemma map_of_set_prop:
  "map_of (set_prop k x ps) k' = (if k' = k then Some x else map_of ps k')"
  by (induction ps) auto

lemma last_show_nat: "last (show_nat n) = char_of (48 + n mod 10)"
  by (subst show_nat.simps) simp

lemma show_nat_not_type: "show_nat n \<noteq> ''type''"
proof
  assume "show_nat n = ''type''"
  then have "last (show_nat n) = CHR ''e''" by simp
  then have "of_char (char_of (48 + n mod 10) :: char) = (of_char (CHR ''e'') :: nat)"
    by (simp add: last_show_nat)
  then show False by (simp add: of_char_of)
qed

lemma map_of_zip_show_nat: "map_of (zip (map show_nat ns) ys) ''type'' = None"
proof (induction ns arbitrary: ys)
  case Nil
  show ?case by simp
next
  case (Cons n ns)
  then show ?case by (cases ys) (simp_all add: show_nat_not_type [THEN not_sym])
qed

lemma map_of_spread_type:
  "(case map_of (spread x) ''type'' of None \<Rightarrow> JUndefined | Some v \<Rightarrow> v) = prop_of x ''type''"
  by (cases x) (simp_all add: map_of_zip_show_nat)

text \<open>
  The descriptor of an error event, \<^verbatim>\<open>{...requestType, payload: new RequestError(msg),
  error: true}\<close>, has the type of the request descriptor, the \<^verbatim>\<open>RequestError\<close> as payload
  and \<^verbatim>\<open>error: true\<close>.
\<close>

lemma errorDescriptor_props:
  "prop_of (errorDescriptor v msg) ''type'' = prop_of (requestType v) ''type''"
  "prop_of (errorDescriptor v msg) ''payload'' = RequestError msg"
  "prop_of (errorDescriptor v msg) ''error'' = JBool True"
  by (simp_all add: errorDescriptor_def map_of_set_prop map_of_spread_type)

lemmas sample_defs = sample_def isRSAA_spec_def validateRSAA_spec_def rsaa_def basic_def
  CALL_API_def descriptor_defects_def full_cache_def empty_cache_def broken_cache_def
  rejecting_cache_def silent_cache_def

lemma sample_parse: "parseRSAA sample (rsaa intent) = Normal (destructure sample (JObj intent))"
  by (simp add: parseRSAA_def get_prop_def nullish_def rsaa_def)

section \<open>Rules for \<open>yields\<close>\<close>

lemma yields_ret: "Q (Normal x) [] \<Longrightarrow> yields (ret x) Q"
  by (simp add: yields_def ret_def)

lemma yields_throw: "Q (Abrupt e) [] \<Longrightarrow> yields (throw e) Q"
  by (simp add: yields_def throw_def)

lemma yields_lift: "Q r [] \<Longrightarrow> yields (lift r) Q"
  by (simp add: yields_def lift_def)

lemma yields_ext: "(\<And>n. Q (env n c) [(c, env n c)]) \<Longrightarrow> yields (ext env c) Q"
  by (simp add: yields_def ext_def)

lemma yields_try_catch:
  assumes "yields b (\<lambda>r e1. case r of Abrupt e \<Rightarrow> yields (h e) (\<lambda>r' e2. Q r' (e1 @ e2))
                           | Normal x \<Rightarrow> yields (k x) (\<lambda>r' e2. Q r' (e1 @ e2)))"
  shows "yields (try_catch b h k) Q"
  unfolding yields_def
proof
  fix t
  from assms obtain e1 where m: "snd (b t) = t @ e1"
    and c: "case fst (b t) of Abrupt e \<Rightarrow> yields (h e) (\<lambda>r' e2. Q r' (e1 @ e2))
            | Normal x \<Rightarrow> yields (k x) (\<lambda>r' e2. Q r' (e1 @ e2))"
    unfolding yields_def by blast
  show "\<exists>new. snd (try_catch b h k t) = t @ new \<and> Q (fst (try_catch b h k t)) new"
  proof (cases "fst (b t)")
    case (Abrupt e)
    with c have "yields (h e) (\<lambda>r' e2. Q r' (e1 @ e2))" by simp
    then obtain e2 where "snd (h e (t @ e1)) = (t @ e1) @ e2" "Q (fst (h e (t @ e1))) (e1 @ e2)"
      unfolding yields_def by blast
    with m Abrupt show ?thesis
      by (cases "b t") (auto simp: try_catch_def)
  next
    case (Normal x)
    with c have "yields (k x) (\<lambda>r' e2. Q r' (e1 @ e2))" by simp
    then obtain e2 where "snd (k x (t @ e1)) = (t @ e1) @ e2" "Q (fst (k x (t @ e1))) (e1 @ e2)"
      unfolding yields_def by blast
    with m Normal show ?thesis
      by (cases "b t") (auto simp: try_catch_def)
  qed
qed

lemma andThen_try_catch: "andThen m k = try_catch m throw k"
  by (rule ext) (simp add: andThen_def try_catch_def throw_def split: prod.splits completion.splits)

lemma yields_andThen:
  assumes "yields m (\<lambda>r e1. case r of Abrupt e \<Rightarrow> Q (Abrupt e) e1
                           | Normal x \<Rightarrow> yields (k x) (\<lambda>r' e2. Q r' (e1 @ e2)))"
  shows "yields (andThen m k) Q"
  unfolding andThen_try_catch
proof (rule yields_try_catch)
  show "yields m (\<lambda>r e1. case r of Abrupt e \<Rightarrow> yields (throw e) (\<lambda>r' e2. Q r' (e1 @ e2))
                           | Normal x \<Rightarrow> yields (k x) (\<lambda>r' e2. Q r' (e1 @ e2)))"
    using assms unfolding yields_def
    by (auto simp: throw_def split: completion.splits)
qed

lemma yields_weaken: "yields m Q' \<Longrightarrow> (\<And>r e. Q' r e \<Longrightarrow> Q r e) \<Longrightarrow> yields m Q"
  unfolding yields_def by blast

lemma yields_if: "(b \<Longrightarrow> yields m Q) \<Longrightarrow> (\<not> b \<Longrightarrow> yields m' Q) \<Longrightarrow> yields (if b then m else m') Q"
  by simp

lemma yields_run: "yields m Q \<Longrightarrow> m [] = (out, tr) \<Longrightarrow> Q out tr"
  unfolding yields_def by (metis append_Nil fst_conv snd_conv)

lemmas wp = yields_ret yields_throw yields_lift yields_ext yields_andThen yields_try_catch yields_if

section \<open>Traces\<close>

lemma each_after_append:
  "each_after ok before (xs @ ys) = (each_after ok before xs \<and> each_after ok (rev xs @ before) ys)"
  by (induction xs arbitrary: before) auto

lemma chained_append: "chained ok a \<Longrightarrow> chained ok b \<Longrightarrow> chained ok (a @ b)"
  by (simp add: chained_def each_after_append)

lemma quiet_late: "quiet x \<Longrightarrow> late x"
  by (cases x rule: quiet.cases) auto

lemma late_probed: "list_all late new \<Longrightarrow> chained probed new"
  unfolding chained_def
proof
  fix before
  assume "list_all late new"
  then show "each_after probed before new"
  proof (induction new arbitrary: before)
    case Nil
    show ?case by simp
  next
    case (Cons x new)
    then show ?case by (cases x rule: late.cases) (auto simp: probed_def)
  qed
qed

lemma late_not_set: "late x \<Longrightarrow> \<not> is_set x"
  by (cases x rule: late.cases) auto

section \<open>The calls of each stage\<close>

lemma requestError_calls:
  "yields (requestError env action v msg) (\<lambda>r new. list_all quiet new \<and> chained built new)"
  unfolding requestError_def
  by (auto intro!: wp simp: chained_def built_def split: completion.splits)

lemma processResponse_calls:
  "yields (processResponse env action v res) (\<lambda>r new. list_all quiet new \<and> chained built new)"
  unfolding processResponse_def
  by (auto intro!: wp simp: chained_def built_def get_prop_def read_binding_def split: completion.splits)

lemma fetchFailed_calls:
  "yields (fetchFailed env action v e) (\<lambda>r new. list_all quiet new \<and> chained built new)"
  unfolding fetchFailed_def
  by (auto intro!: wp yields_weaken [OF requestError_calls] simp: chained_def
      split: completion.splits)

lemma cacheFailed_calls:
  "yields (cacheFailed env action v e) (\<lambda>r new. list_all quiet new \<and> chained built new)"
  unfolding cacheFailed_def to_string_def
  by (auto intro!: wp yields_weaken [OF requestError_calls] simp: chained_def built_def
      split: completion.splits option.splits)

lemma callApi_calls:
  "yields (callApi env action v) (\<lambda>r new. list_all late new \<and> chained built new)"
  unfolding callApi_def
  by (auto intro!: wp yields_weaken [OF fetchFailed_calls] yields_weaken [OF processResponse_calls]
      simp: chained_def built_def each_after_append list.pred_mono_strong [OF _ quiet_late]
      split: completion.splits)


lemmas calls_simps = chained_def built_def probed_def each_after_append
  list.pred_mono_strong [OF _ quiet_late]

lemma dispatchRequest_calls:
  "yields (dispatchRequest env action v) (\<lambda>r new. list_all late new \<and> chained built new)"
  unfolding dispatchRequest_def
  by (auto intro!: wp yields_weaken [OF callApi_calls] simp: calls_simps split: completion.splits)

lemma processOptions_calls:
  "yields (processOptions env action v) (\<lambda>r new. list_all late new \<and> chained built new)"
  unfolding processOptions_def
  by (auto intro!: wp yields_weaken [OF requestError_calls] yields_weaken [OF dispatchRequest_calls]
      simp: calls_simps split: completion.splits)

lemma processHeaders_calls:
  "yields (processHeaders env action v) (\<lambda>r new. list_all late new \<and> chained built new)"
  unfolding processHeaders_def
  by (auto intro!: wp yields_weaken [OF requestError_calls] yields_weaken [OF processOptions_calls]
      simp: calls_simps split: completion.splits)

lemma orderly_late: "list_all late new \<Longrightarrow> chained built new \<Longrightarrow> orderly new"
  by (simp add: orderly_def late_probed list.pred_mono_strong [OF _ late_not_set])

lemma orderly_quiet: "list_all quiet new \<Longrightarrow> chained built new \<Longrightarrow> orderly new"
  by (rule orderly_late) (simp_all add: list.pred_mono_strong [OF _ quiet_late])

lemma orderly_append: "orderly a \<Longrightarrow> orderly b \<Longrightarrow> orderly (a @ b)"
  by (simp add: orderly_def chained_append)

lemma orderly_Cons: "orderly [x] \<Longrightarrow> orderly b \<Longrightarrow> orderly (x # b)"
  using orderly_append [of "[x]" b] by simp

lemma requestError_orderly: "yields (requestError env action v msg) (\<lambda>r new. orderly new)"
  by (rule yields_weaken [OF requestError_calls]) (simp add: orderly_quiet)

lemma cacheFailed_orderly: "yields (cacheFailed env action v e) (\<lambda>r new. orderly new)"
  by (rule yields_weaken [OF cacheFailed_calls]) (simp add: orderly_quiet)

lemma processHeaders_orderly: "yields (processHeaders env action v) (\<lambda>r new. orderly new)"
  by (rule yields_weaken [OF processHeaders_calls]) (simp add: orderly_late)

lemmas orderly_simps = orderly_def chained_def built_def probed_def each_after_append

lemma probeCache_orderly: "yields (probeCache h env action v) (\<lambda>r new. orderly new)"
  unfolding probeCache_def call_method_def
  by (auto intro!: wp yields_weaken [OF cacheFailed_orderly] yields_weaken [OF processHeaders_orderly]
      simp: orderly_simps split: completion.splits option.splits)

lemma processEndpoint_orderly: "yields (processEndpoint h env action v) (\<lambda>r new. orderly new)"
  unfolding processEndpoint_def
  by (auto intro!: wp yields_weaken [OF requestError_orderly] yields_weaken [OF probeCache_orderly]
      simp: orderly_simps split: completion.splits)

lemma checkBailout_orderly: "yields (checkBailout h env action v) (\<lambda>r new. orderly new)"
  unfolding checkBailout_def
  by (auto intro!: wp yields_weaken [OF requestError_orderly] yields_weaken [OF processEndpoint_orderly]
      simp: orderly_simps split: completion.splits)

lemma dispatchInvalid_calls:
  "yields (dispatchInvalid env action errs)
     (\<lambda>r new. list_all quiet new \<and>
        list_all (\<lambda>x. \<exists>t. fst x = Next (JObj [(''type'', t), (''payload'', InvalidRSAA errs),
                                               (''error'', JBool True)])) new)"
  unfolding dispatchInvalid_def
  by (auto intro!: wp simp: Let_def get_prop_def split: completion.splits)

lemma valid_orderly:
  "validateRSAA h action = [] \<Longrightarrow> isRSAA h action \<Longrightarrow>
   yields (apiMiddleware h env action) (\<lambda>r new. orderly new)"
  unfolding apiMiddleware_def
  by (auto intro!: wp yields_weaken [OF checkBailout_orderly] simp: orderly_simps
      split: completion.splits)


section \<open>Passing through\<close>

text \<open>
  C9. An action that \<^verbatim>\<open>isRSAA\<close> does not recognise goes to \<^verbatim>\<open>next\<close> as it is: that call is
  the only call of the run (no validation error is dispatched, no state read, no cache
  or transport call made), and its result is the result of the middleware.
\<close>

theorem passthrough:
  "\<not> isRSAA h action \<Longrightarrow>
     apiMiddleware h env action [] = (env 0 (Next action), [(Next action, env 0 (Next action))])"
  by (simp add: apiMiddleware_def ext_def)

theorem passthrough_witness:
  "\<not> isRSAA sample (JObj [(''type'', JStr ''PLAIN'')]) \<and>
   apiMiddleware sample world (JObj [(''type'', JStr ''PLAIN'')]) [] =
     (Normal (JObj [(''type'', JStr ''PLAIN'')]),
      [(Next (JObj [(''type'', JStr ''PLAIN'')]), Normal (JObj [(''type'', JStr ''PLAIN'')]))])"
  using passthrough [of sample "JObj [(''type'', JStr ''PLAIN'')]" world]
  by (simp add: sample_def isRSAA_spec_def CALL_API_def world_def)

section \<open>Invalid RSAAs\<close>

text \<open>
  C4, as the code has it. An RSAA with validation errors makes at most one call: when
  \<^verbatim>\<open>[CALL_API].types\<close> is an array, one call of \<^verbatim>\<open>next\<close> with the event
  \<^verbatim>\<open>{type, payload: new InvalidRSAA(validationErrors), error: true}\<close>, where \<^verbatim>\<open>type\<close> is
  the \<^verbatim>\<open>type\<close> property of the first element of the array when that element and its
  \<^verbatim>\<open>type\<close> are truthy (a record descriptor), and the first element itself in any other
  case (a bare identifier, but also a malformed descriptor, and \<^verbatim>\<open>undefined\<close> for an empty
  array); when \<^verbatim>\<open>types\<close> is anything but an array, no call at all. The action and its
  \<^verbatim>\<open>[CALL_API]\<close> property are taken to be neither \<^verbatim>\<open>undefined\<close> nor \<^verbatim>\<open>null\<close>.
\<close>

theorem invalid_intent_event:
  assumes "isRSAA h action" and "validateRSAA h action \<noteq> []"
    and "\<not> nullish action" and "\<not> nullish (prop_of action CALL_API)"
  shows "snd (apiMiddleware h env action []) =
     (let ts = prop_of (prop_of action CALL_API) ''types'';
          d = first_elem ts;
          ev = JObj [(''type'', if truthy d \<and> truthy (prop_of d ''type'') then prop_of d ''type'' else d),
                     (''payload'', InvalidRSAA (validateRSAA h action)),
                     (''error'', JBool True)]
      in if isArray ts then [(Next ev, env 0 (Next ev))] else [])"
  using assms
  by (cases "prop_of (prop_of action CALL_API) ''types''")
    (simp_all add: apiMiddleware_def dispatchInvalid_def andThen_def lift_def get_prop_def ext_def
      ret_def Let_def split: completion.splits)

text \<open>
  An RSAA without endpoint, whose first type descriptor is a record: one event, with the
  identifier of the record as its type.
\<close>

theorem invalid_intent_event_witness:
  "isRSAA sample (rsaa [(''types'', JArr [JObj [(''type'', JStr ''REQ'')], JStr ''OK'', JStr ''FAIL''])]) \<and>
   validateRSAA sample (rsaa [(''types'', JArr [JObj [(''type'', JStr ''REQ'')], JStr ''OK'', JStr ''FAIL''])]) =
     [''endpoint must be present and be a string or callable''] \<and>
   emitted (snd (apiMiddleware sample world
       (rsaa [(''types'', JArr [JObj [(''type'', JStr ''REQ'')], JStr ''OK'', JStr ''FAIL''])]) [])) =
     [JObj [(''type'', JStr ''REQ''),
            (''payload'', InvalidRSAA [''endpoint must be present and be a string or callable'']),
            (''error'', JBool True)]]"
  using invalid_intent_event [of sample
      "rsaa [(''types'', JArr [JObj [(''type'', JStr ''REQ'')], JStr ''OK'', JStr ''FAIL''])]" world]
  by (simp add: sample_def isRSAA_spec_def validateRSAA_spec_def descriptor_defects_def rsaa_def
      CALL_API_def nullish_def Let_def)

text \<open>
  Against C4 as it is stated: with \<^verbatim>\<open>types: []\<close> the first type descriptor is missing, with
  \<^verbatim>\<open>types: [42, "OK", "FAIL"]\<close> it is malformed, and in both cases an event is emitted, its
  type \<^verbatim>\<open>undefined\<close> and \<^verbatim>\<open>42\<close>.
\<close>

theorem invalid_intent_counterexample:
  "validateRSAA sample (rsaa [(''endpoint'', JStr ''/x''), (''types'', JArr [])]) =
     [''types must be present and be an ordered triple''] \<and>
   emitted (snd (apiMiddleware sample world (rsaa [(''endpoint'', JStr ''/x''), (''types'', JArr [])]) [])) =
     [JObj [(''type'', JUndefined),
            (''payload'', InvalidRSAA [''types must be present and be an ordered triple'']),
            (''error'', JBool True)]] \<and>
   validateRSAA sample
       (rsaa [(''endpoint'', JStr ''/x''), (''types'', JArr [JNum 42, JStr ''OK'', JStr ''FAIL''])]) =
     [''a type descriptor must be an identifier or a record with an identifier as type''] \<and>
   emitted (snd (apiMiddleware sample world
       (rsaa [(''endpoint'', JStr ''/x''), (''types'', JArr [JNum 42, JStr ''OK'', JStr ''FAIL''])]) [])) =
     [JObj [(''type'', JNum 42),
            (''payload'', InvalidRSAA [''a type descriptor must be an identifier or a record with an identifier as type'']),
            (''error'', JBool True)]]"
  by (simp add: sample_def isRSAA_spec_def validateRSAA_spec_def descriptor_defects_def rsaa_def
      CALL_API_def nullish_def Let_def apiMiddleware_def dispatchInvalid_def andThen_def lift_def
      get_prop_def ext_def ret_def world_def)

section \<open>The bailout\<close>

text \<open>
  C7. For a valid RSAA with the local variables \<open>v\<close> of lines 40 to 43: when \<^verbatim>\<open>bailout\<close> is
  \<^verbatim>\<open>true\<close> the middleware returns without a single call; when \<^verbatim>\<open>bailout\<close> is a callable
  that returns a truthy value on the current state, it returns after these two calls, so
  without an event; when the callable throws, it reads the state again, has \<^verbatim>\<open>actionWith\<close>
  build an event from the descriptor \<open>errorDescriptor\<close> (the type of the request
  descriptor, a \<^verbatim>\<open>RequestError\<close> payload, \<^verbatim>\<open>error: true\<close>), hands this one event to
  \<^verbatim>\<open>next\<close> and returns.
\<close>

theorem bailout_stops:
  assumes "isRSAA h action" and "validateRSAA h action = []" and "parseRSAA h action = Normal v"
  shows "(bailout v = JBool True \<longrightarrow> apiMiddleware h env action [] = (Normal JUndefined, [])) \<and>
    (is_function (bailout v) \<and> env 0 GetState = Normal s \<and>
     env 1 (Apply BailoutFn (bailout v) s) = Normal r \<and> truthy r \<longrightarrow>
       apiMiddleware h env action [] =
         (Normal JUndefined, [(GetState, Normal s), (Apply BailoutFn (bailout v) s, Normal r)])) \<and>
    (is_function (bailout v) \<and> env 0 GetState = Normal s \<and>
     env 1 (Apply BailoutFn (bailout v) s) = Abrupt e \<and> env 2 GetState = Normal s' \<and>
     env 3 (ActionWith (errorDescriptor v (JStr ''[CALL_API].bailout function failed'')) [action, s']) = Normal ev \<longrightarrow>
       apiMiddleware h env action [] =
         (env 4 (Next ev),
          [(GetState, Normal s), (Apply BailoutFn (bailout v) s, Abrupt e), (GetState, Normal s'),
           (ActionWith (errorDescriptor v (JStr ''[CALL_API].bailout function failed'')) [action, s'], Normal ev),
           (Next ev, env 4 (Next ev))]) \<and>
       prop_of (errorDescriptor v (JStr ''[CALL_API].bailout function failed'')) ''type'' =
         prop_of (requestType v) ''type'' \<and>
       prop_of (errorDescriptor v (JStr ''[CALL_API].bailout function failed'')) ''payload'' =
         RequestError (JStr ''[CALL_API].bailout function failed'') \<and>
       prop_of (errorDescriptor v (JStr ''[CALL_API].bailout function failed'')) ''error'' = JBool True)"
  using assms
  by (cases "bailout v")
    (simp_all add: apiMiddleware_def checkBailout_def try_catch_def andThen_def lift_def ext_def
      ret_def requestError_def eval_nat_numeral errorDescriptor_props)

theorem bailout_stops_witness:
  "apiMiddleware sample world (rsaa (basic @ [(''bailout'', JBool True)])) [] = (Normal JUndefined, []) \<and>
   apiMiddleware sample world (rsaa (basic @ [(''bailout'', JFun 21)])) [] =
     (Normal JUndefined,
      [(GetState, Normal (JObj [(''calls'', JNum 0)])),
       (Apply BailoutFn (JFun 21) (JObj [(''calls'', JNum 0)]), Normal (JBool True))]) \<and>
   emitted (snd (apiMiddleware sample world (rsaa (basic @ [(''bailout'', JFun 22)])) [])) =
     [JObj [(''type'', JStr ''REQ''),
            (''payload'', RequestError (JStr ''[CALL_API].bailout function failed'')),
            (''error'', JBool True)]]"
proof -
  let ?i1 = "basic @ [(''bailout'', JBool True)]"
  let ?i2 = "basic @ [(''bailout'', JFun 21)]"
  let ?i3 = "basic @ [(''bailout'', JFun 22)]"
  have v1: "isRSAA sample (rsaa ?i1)" "validateRSAA sample (rsaa ?i1) = []"
    by (simp_all add: sample_defs)
  have v2: "isRSAA sample (rsaa ?i2)" "validateRSAA sample (rsaa ?i2) = []"
    by (simp_all add: sample_defs)
  have v3: "isRSAA sample (rsaa ?i3)" "validateRSAA sample (rsaa ?i3) = []"
    by (simp_all add: sample_defs)
  note b1 = bailout_stops [OF v1 sample_parse, of world]
  note b2 = bailout_stops [OF v2 sample_parse, of world
      "JObj [(''calls'', JNum 0)]" "JBool True"]
  note b3 = bailout_stops [OF v3 sample_parse, of world
      "JObj [(''calls'', JNum 0)]" _ "Exn ''Error'' ''boom''" "JObj [(''calls'', JNum 2)]"
      "JObj [(''type'', JStr ''REQ''),
            (''payload'', RequestError (JStr ''[CALL_API].bailout function failed'')),
            (''error'', JBool True)]"]
  have d: "bailout (destructure sample (JObj ?i1)) = JBool True"
      "bailout (destructure sample (JObj ?i2)) = JFun 21"
      "bailout (destructure sample (JObj ?i3)) = JFun 22"
      "requestType (destructure sample (JObj ?i3)) = JObj [(''type'', JStr ''REQ'')]"
    by (simp_all add: destructure_def basic_def Let_def sample_def normalizeTypeDescriptors_spec_def
        elem_or_undefined_def as_record_def)
  show ?thesis
    using b1 b2 b3
    by (simp add: d world_def errorDescriptor_def buildEvent_def defaultPayload_def RequestError_def)
qed

section \<open>Events and the event builder\<close>

text \<open>
  C10. In a run on an RSAA with validation errors, every call is a call of \<^verbatim>\<open>next\<close> on the
  raw event \<^verbatim>\<open>{type, payload: new InvalidRSAA(validationErrors), error: true}\<close>: there is
  no call of \<^verbatim>\<open>actionWith\<close>, so no payload or meta transform of the request descriptor
  runs on it. In a run on a valid RSAA, every event that goes to \<^verbatim>\<open>next\<close>, the error
  events among them, is the value that the call just before it, a call of \<^verbatim>\<open>actionWith\<close>,
  resolved to.
\<close>

theorem events_through_builder:
  assumes "isRSAA h action" and "apiMiddleware h env action [] = (out, tr)"
  shows "(validateRSAA h action \<noteq> [] \<longrightarrow>
            list_all (\<lambda>x. \<exists>t. fst x = Next (JObj [(''type'', t),
                                                   (''payload'', InvalidRSAA (validateRSAA h action)),
                                                   (''error'', JBool True)])) tr) \<and>
         (validateRSAA h action = [] \<longrightarrow> each_after built [] tr)"
proof (cases "validateRSAA h action = []")
  case True
  from yields_run [OF valid_orderly [OF True assms(1)] assms(2)] True show ?thesis
    by (simp add: orderly_def chained_def)
next
  case False
  with assms have "dispatchInvalid env action (validateRSAA h action) [] = (out, tr)"
    by (simp add: apiMiddleware_def)
  from yields_run [OF dispatchInvalid_calls this] False show ?thesis
    by simp
qed


text \<open>
  An RSAA without endpoint, and a valid one whose \<^verbatim>\<open>bailout\<close> throws.
\<close>

theorem events_through_builder_witness:
  "isRSAA sample (rsaa [(''types'', JArr [JObj [(''type'', JStr ''REQ'')], JStr ''OK'', JStr ''FAIL''])]) \<and>
   validateRSAA sample (rsaa [(''types'', JArr [JObj [(''type'', JStr ''REQ'')], JStr ''OK'', JStr ''FAIL''])]) =
     [''endpoint must be present and be a string or callable''] \<and>
   list_all (\<lambda>x. \<exists>t. fst x = Next (JObj [(''type'', t),
        (''payload'', InvalidRSAA [''endpoint must be present and be a string or callable'']),
        (''error'', JBool True)]))
     (snd (apiMiddleware sample world
        (rsaa [(''types'', JArr [JObj [(''type'', JStr ''REQ'')], JStr ''OK'', JStr ''FAIL''])]) [])) \<and>
   length (snd (apiMiddleware sample world
        (rsaa [(''types'', JArr [JObj [(''type'', JStr ''REQ'')], JStr ''OK'', JStr ''FAIL''])]) [])) = 1 \<and>
   isRSAA sample (rsaa (basic @ [(''bailout'', JFun 22)])) \<and>
   validateRSAA sample (rsaa (basic @ [(''bailout'', JFun 22)])) = [] \<and>
   each_after built [] (snd (apiMiddleware sample world (rsaa (basic @ [(''bailout'', JFun 22)])) [])) \<and>
   emitted (snd (apiMiddleware sample world (rsaa (basic @ [(''bailout'', JFun 22)])) [])) =
     [JObj [(''type'', JStr ''REQ''),
            (''payload'', RequestError (JStr ''[CALL_API].bailout function failed'')),
            (''error'', JBool True)]]"
proof -
  let ?a = "rsaa [(''types'', JArr [JObj [(''type'', JStr ''REQ'')], JStr ''OK'', JStr ''FAIL''])]"
  let ?b = "rsaa (basic @ [(''bailout'', JFun 22)])"
  have va: "isRSAA sample ?a"
      "validateRSAA sample ?a = [''endpoint must be present and be a string or callable'']"
    and vb: "isRSAA sample ?b" "validateRSAA sample ?b = []"
    by (simp_all add: sample_defs)
  have la: "length (snd (apiMiddleware sample world ?a [])) = 1"
    by code_simp
  have eb: "emitted (snd (apiMiddleware sample world ?b [])) =
     [JObj [(''type'', JStr ''REQ''),
            (''payload'', RequestError (JStr ''[CALL_API].bailout function failed'')),
            (''error'', JBool True)]]"
    by code_simp
  from events_through_builder [OF va(1) prod.collapse [symmetric], of world]
    events_through_builder [OF vb(1) prod.collapse [symmetric], of world]
  show ?thesis
    by (simp add: va vb la eb)
qed

section \<open>The cache\<close>

text \<open>
  C6. In every run, a call of \<^verbatim>\<open>cache.get\<close> comes right after a call of \<^verbatim>\<open>cache.has\<close> with
  the same key on the same cache that resolved to a truthy value and one read of the
  state (\<open>probed\<close>), and \<^verbatim>\<open>cache.set\<close> is not called. The only call of \<^verbatim>\<open>cache.set\<close> in the
  source, line 162, with the endpoint and the payload of the success event, stands after
  line 157, whose initialiser reads the \<^verbatim>\<open>action\<close> that the line declares and throws: so
  the exception that the claim makes for \<^verbatim>\<open>set\<close> never arises.
\<close>

theorem cache_discipline:
  assumes "apiMiddleware h env action [] = (out, tr)"
  shows "each_after probed [] tr \<and> list_all (\<lambda>x. \<not> is_set x) tr"
proof -
  have "yields (apiMiddleware h env action) (\<lambda>r new. chained probed new \<and> list_all (\<lambda>x. \<not> is_set x) new)"
  proof (cases "isRSAA h action \<and> validateRSAA h action = []")
    case True
    then show ?thesis
      by (intro yields_weaken [OF valid_orderly]) (simp_all add: orderly_def)
  next
    case False
    then have "yields (apiMiddleware h env action) (\<lambda>r new. list_all quiet new)"
      unfolding apiMiddleware_def
      by (auto intro!: wp yields_weaken [OF dispatchInvalid_calls])
    then show ?thesis
    proof (rule yields_weaken)
      fix r :: "jsval completion" and e
      assume "list_all quiet e"
      then have l: "list_all late e"
        by (rule list.pred_mono_strong) (rule quiet_late)
      then have "list_all (\<lambda>x. \<not> is_set x) e"
        by (rule list.pred_mono_strong) (rule late_not_set)
      with l show "chained probed e \<and> list_all (\<lambda>x. \<not> is_set x) e"
        by (simp add: late_probed)
    qed
  qed
  from yields_run [OF this assms] show ?thesis
    by (simp add: chained_def)
qed

text \<open>A run on a cache that holds the endpoint.\<close>

theorem cache_discipline_witness:
  "take 3 (snd (apiMiddleware sample world (rsaa (basic @ [(''cache'', full_cache)])) [])) =
     [(Cache Has full_cache [JStr ''/x''], Normal (JBool True)),
      (GetState, Normal (JObj [(''calls'', JNum 1)])),
      (Cache Get full_cache [JStr ''/x''], Normal (JObj [(''a'', JNum 1)]))] \<and>
   each_after probed [] (snd (apiMiddleware sample world (rsaa (basic @ [(''cache'', full_cache)])) [])) \<and>
   list_all (\<lambda>x. \<not> is_set x)
     (snd (apiMiddleware sample world (rsaa (basic @ [(''cache'', full_cache)])) []))"
proof -
  have "take 3 (snd (apiMiddleware sample world (rsaa (basic @ [(''cache'', full_cache)])) [])) =
     [(Cache Has full_cache [JStr ''/x''], Normal (JBool True)),
      (GetState, Normal (JObj [(''calls'', JNum 1)])),
      (Cache Get full_cache [JStr ''/x''], Normal (JObj [(''a'', JNum 1)]))]"
    by code_simp
  with cache_discipline [OF prod.collapse [symmetric], of sample world
      "rsaa (basic @ [(''cache'', full_cache)])"]
  show ?thesis by simp
qed

section \<open>An ok response\<close>

text \<open>
  C1, on the intent of the spec's example, without cache; the server answers with an ok
  response. The run makes one transport call and emits one event, the request event:
  after the ok response, line 157 reads the block's own \<^verbatim>\<open>action\<close> before its
  initialisation, and no success event follows.
\<close>

theorem ok_response_events:
  "isRSAA sample (rsaa basic) \<and> validateRSAA sample (rsaa basic) = [] \<and>
   fetches (snd (apiMiddleware sample world (rsaa basic) [])) =
     [(JStr ''/x'', JObj [(''method'', JStr ''GET''), (''body'', JUndefined),
                          (''credentials'', JUndefined), (''headers'', JObj [])])] \<and>
   world 3 (Fetch (JStr ''/x'') (JObj [(''method'', JStr ''GET''), (''body'', JUndefined),
                          (''credentials'', JUndefined), (''headers'', JObj [])])) =
     Normal (JObj [(''ok'', JBool True), (''status'', JNum 200), (''body'', JObj [(''a'', JNum 1)])]) \<and>
   emitted (snd (apiMiddleware sample world (rsaa basic) [])) = [JObj [(''type'', JStr ''REQ'')]]"
  by code_simp

text \<open>
  What lines 155 to 164 do with any response whose \<^verbatim>\<open>ok\<close> is truthy: no call, and a
  \<^verbatim>\<open>ReferenceError\<close>.
\<close>

lemma processResponse_ok:
  assumes "\<not> nullish res" and "truthy (prop_of res ''ok'')"
  shows "processResponse env action v res t =
     (Abrupt (Exn ''ReferenceError'' ''Cannot access action before initialization''), t)"
  using assms
  by (simp add: processResponse_def andThen_def lift_def get_prop_def read_binding_def)

text \<open>
  C2, on the same run: the promise of the middleware is rejected with the
  \<^verbatim>\<open>ReferenceError\<close> of line 157, which no \<^verbatim>\<open>try\<close> guards.
\<close>

theorem ok_response_rejects:
  "fst (apiMiddleware sample world (rsaa basic) []) =
     Abrupt (Exn ''ReferenceError'' ''Cannot access action before initialization'')"
  by code_simp

text \<open>
  Against C3 as it is stated: on a cache that holds the endpoint, the run makes no
  transport call and emits one event, the success event; there is no request event,
  since line 82 returns before line 132.
\<close>

theorem cache_hit_counterexample:
  "isRSAA sample (rsaa (basic @ [(''cache'', full_cache)])) \<and>
   validateRSAA sample (rsaa (basic @ [(''cache'', full_cache)])) = [] \<and>
   hd (snd (apiMiddleware sample world (rsaa (basic @ [(''cache'', full_cache)])) [])) =
     (Cache Has full_cache [JStr ''/x''], Normal (JBool True)) \<and>
   fetches (snd (apiMiddleware sample world (rsaa (basic @ [(''cache'', full_cache)])) [])) = [] \<and>
   emitted (snd (apiMiddleware sample world (rsaa (basic @ [(''cache'', full_cache)])) [])) =
     [JObj [(''type'', JStr ''OK''), (''payload'', JObj [(''a'', JNum 1)])]] \<and>
   length (emitted (snd (apiMiddleware sample world (rsaa (basic @ [(''cache'', full_cache)])) []))) \<noteq> 2"
  by code_simp

text \<open>
  Against C5 as it is stated. The \<^verbatim>\<open>bailout\<close> callable throws an error with the message
  \<^verbatim>\<open>boom\<close>, and the message of the \<^verbatim>\<open>RequestError\<close> is the fixed text of line 55. The
  \<^verbatim>\<open>has\<close> of a cache rejects with the string \<^verbatim>\<open>down\<close>, which has no \<^verbatim>\<open>message\<close>: the message
  of the \<^verbatim>\<open>RequestError\<close> ends with \<^verbatim>\<open>undefined\<close>. The transport rejects with the string
  \<^verbatim>\<open>connection reset\<close>: the \<^verbatim>\<open>RequestError\<close> has the message \<^verbatim>\<open>undefined\<close>.
\<close>

theorem fixed_message_counterexample:
  "isRSAA sample (rsaa (basic @ [(''bailout'', JFun 22)])) \<and>
   validateRSAA sample (rsaa (basic @ [(''bailout'', JFun 22)])) = [] \<and>
   snd (apiMiddleware sample world (rsaa (basic @ [(''bailout'', JFun 22)])) []) ! 1 =
     (Apply BailoutFn (JFun 22) (JObj [(''calls'', JNum 0)]), Abrupt (Exn ''Error'' ''boom'')) \<and>
   emitted (snd (apiMiddleware sample world (rsaa (basic @ [(''bailout'', JFun 22)])) [])) =
     [JObj [(''type'', JStr ''REQ''),
            (''payload'', JObj [(''name'', JStr ''RequestError''),
                                (''message'', JStr ''[CALL_API].bailout function failed'')]),
            (''error'', JBool True)]] \<and>
   \<not> sublist ''boom'' ''[CALL_API].bailout function failed'' \<and>
   isRSAA sample (rsaa (basic @ [(''cache'', rejecting_cache)])) \<and>
   validateRSAA sample (rsaa (basic @ [(''cache'', rejecting_cache)])) = [] \<and>
   hd (snd (apiMiddleware sample world (rsaa (basic @ [(''cache'', rejecting_cache)])) [])) =
     (Cache Has rejecting_cache [JStr ''/x''], Abrupt (Thrown (JStr ''down''))) \<and>
   emitted (snd (apiMiddleware sample world (rsaa (basic @ [(''cache'', rejecting_cache)])) [])) =
     [JObj [(''type'', JStr ''REQ''),
            (''payload'', JObj [(''name'', JStr ''RequestError''),
                                (''message'', JStr ''[CALL_API].cache API function failed: undefined'')]),
            (''error'', JBool True)]] \<and>
   \<not> sublist ''down'' ''[CALL_API].cache API function failed: undefined'' \<and>
   isRSAA sample (rsaa [(''endpoint'', JStr ''/reset''),
                        (''types'', JArr [JStr ''REQ'', JStr ''OK'', JStr ''FAIL''])]) \<and>
   validateRSAA sample (rsaa [(''endpoint'', JStr ''/reset''),
                              (''types'', JArr [JStr ''REQ'', JStr ''OK'', JStr ''FAIL''])]) = [] \<and>
   snd (apiMiddleware sample world
          (rsaa [(''endpoint'', JStr ''/reset''),
                 (''types'', JArr [JStr ''REQ'', JStr ''OK'', JStr ''FAIL''])]) []) ! 3 =
     (Fetch (JStr ''/reset'') (JObj [(''method'', JUndefined), (''body'', JUndefined),
                                     (''credentials'', JUndefined), (''headers'', JObj [])]),
      Abrupt (Thrown (JStr ''connection reset''))) \<and>
   emitted (snd (apiMiddleware sample world
          (rsaa [(''endpoint'', JStr ''/reset''),
                 (''types'', JArr [JStr ''REQ'', JStr ''OK'', JStr ''FAIL''])]) [])) =
     [JObj [(''type'', JStr ''REQ'')],
      JObj [(''type'', JStr ''REQ''),
            (''payload'', JObj [(''name'', JStr ''RequestError''), (''message'', JUndefined)]),
            (''error'', JBool True)]]"
  by code_simp

text \<open>
  The \<^verbatim>\<open>has\<close> of a cache rejects with \<^verbatim>\<open>undefined\<close> (\<^verbatim>\<open>Promise.reject()\<close>): line 91 throws when
  it reads \<^verbatim>\<open>e.message\<close>, inside the \<^verbatim>\<open>catch\<close> block, so no event is emitted and the promise
  of the middleware is rejected.
\<close>

lemma cache_rejects_undefined:
  "apiMiddleware sample world (rsaa (basic @ [(''cache'', silent_cache)])) [] =
     (Abrupt (Exn ''TypeError'' ''Cannot read property message of undefined or null''),
      [(Cache Has silent_cache [JStr ''/x''], Abrupt (Thrown JUndefined))])"
  by code_simp


section \<open>The arguments of the transport\<close>


lemma quiet_no_fetch: "list_all quiet new \<Longrightarrow> (Fetch url init, r) \<notin> set new"
  by (auto simp: list_all_iff)

lemma fetch_resolved_simps [simp]:
  "fetch_resolved v [] = True"
  "fetch_resolved v ((GetState, r) # new) = fetch_resolved v new"
  "fetch_resolved v ((Apply s f x, r) # new) = fetch_resolved v new"
  "fetch_resolved v ((Cache m c a, r) # new) = fetch_resolved v new"
  "fetch_resolved v ((ActionWith d a, r) # new) = fetch_resolved v new"
  "fetch_resolved v ((Next ev, r) # new) = fetch_resolved v new"
  "fetch_resolved v ((ToPrimitive p, r) # new) = fetch_resolved v new"
  "fetch_resolved (v\<lparr>options := y\<rparr>) new = fetch_resolved v new"
  by (simp_all add: fetch_resolved_def)

lemma fetch_resolved_quiet [simp]: "list_all quiet new \<Longrightarrow> fetch_resolved v new"
  by (simp add: fetch_resolved_def quiet_no_fetch)

lemma fetch_args_simps [simp]:
  "fetch_args v [] = True"
  "fetch_args v ((GetState, r) # new) = fetch_args v new"
  "s \<noteq> HeadersFn \<Longrightarrow> fetch_args v ((Apply s f x, r) # new) = fetch_args v new"
  "fetch_args v ((Cache m c a, r) # new) = fetch_args v new"
  "fetch_args v ((ActionWith d a, r) # new) = fetch_args v new"
  "fetch_args v ((Next ev, r) # new) = fetch_args v new"
  "fetch_args v ((ToPrimitive p, r) # new) = fetch_args v new"
  "fetch_args (v\<lparr>endpoint := y\<rparr>) new = fetch_args v new"
  by (simp_all add: fetch_args_def)

lemma fetch_args_quiet [simp]: "list_all quiet new \<Longrightarrow> fetch_args v new"
  by (simp add: fetch_args_def quiet_no_fetch)


lemma fetch_args_failed [simp]:
  "list_all quiet new \<Longrightarrow> fetch_args v ((Apply s f x, r) # new)"
  by (simp add: fetch_args_def quiet_no_fetch)

lemma fetch_args_resolved [simp]:
  assumes "is_function (headers v)" and "fetch_resolved (v\<lparr>headers := x\<rparr>) new"
  shows "fetch_args v ((Apply HeadersFn (headers v) s, Normal x) # new)"
  unfolding fetch_args_def
proof (intro allI impI)
  fix url init r'
  assume "(Fetch url init, r') \<in> set ((Apply HeadersFn (headers v) s, Normal x) # new)"
  then have "(Fetch url init, r') \<in> set new" by auto
  with assms(2) have "prop_of init ''method'' = http_method v \<and>
        prop_of init ''body'' = body v \<and>
        prop_of init ''credentials'' = credentials v \<and>
        prop_of init ''headers'' = (if truthy x then x else JObj [])"
    unfolding fetch_resolved_def by fastforce
  moreover have "(Apply HeadersFn (headers v) s, Normal x)
      \<in> set ((Apply HeadersFn (headers v) s, Normal x) # new)"
    by simp
  ultimately show "prop_of init ''method'' = http_method v \<and>
        prop_of init ''body'' = body v \<and>
        prop_of init ''credentials'' = credentials v \<and>
        (\<exists>resolved.
           prop_of init ''headers'' = (if truthy resolved then resolved else JObj []) \<and>
           (if is_function (headers v)
            then \<exists>s'. (Apply HeadersFn (headers v) s', Normal resolved)
                   \<in> set ((Apply HeadersFn (headers v) s, Normal x) # new)
            else resolved = headers v))"
    using assms(1) by (intro conjI exI [of _ x]) (simp_all, blast)
qed











section \<open>A cache hit\<close>

lemma reliable_simps:
  assumes "reliable env"
  shows "env n GetState \<noteq> Abrupt e" "env n (ActionWith d args) \<noteq> Abrupt e" "env n (Next ev) \<noteq> Abrupt e"
proof -
  from assms obtain x y z where "env n GetState = Normal x" "env n (ActionWith d args) = Normal y"
      "env n (Next ev) = Normal z"
    unfolding reliable_def by (metis collaborator.simps(1,5,6))
  then show "env n GetState \<noteq> Abrupt e" "env n (ActionWith d args) \<noteq> Abrupt e" "env n (Next ev) \<noteq> Abrupt e"
    by simp_all
qed

lemma late_no_has: "list_all late new \<Longrightarrow> (Cache m c args, r) \<notin> set new"
  by (auto simp: list_all_iff)

lemma hit_run_late [simp]: "list_all late new \<Longrightarrow> hit_run h action v out new"
  by (simp add: hit_run_def late_no_has)

lemma hit_run_quiet [simp]: "list_all quiet new \<Longrightarrow> hit_run h action v out new"
  by (rule hit_run_late) (simp add: list.pred_mono_strong [OF _ quiet_late])

lemma hit_run_Nil [simp]: "hit_run h action v out []"
  by (simp add: hit_run_def)

lemma hit_run_endpoint [simp]: "hit_run h action (v\<lparr>endpoint := x\<rparr>) out new = hit_run h action v out new"
  by (simp add: hit_run_def)

lemma hit_run_early [simp]:
  assumes "early x" and "hit_run h action v out new"
  shows "hit_run h action v out (x # new)"
  unfolding hit_run_def
proof (intro allI impI)
  fix c args hit
  assume a: "(Cache Has c args, Normal hit) \<in> set (x # new) \<and> truthy hit"
  with assms(1) have "(Cache Has c args, Normal hit) \<in> set new" by auto
  with a assms(2) obtain pre s cached ev r where
    "new = pre @ [(Cache Has c args, Normal hit), (GetState, Normal s),
                        (Cache Get c args, Normal cached),
                        (ActionWith (successType v) [action, s, fakeJsonResponse h cached], Normal ev),
                        (Next ev, Normal r)]" "list_all early pre" "out = Normal r"
    unfolding hit_run_def by blast
  with assms(1) have "x # new = (x # pre) @ [(Cache Has c args, Normal hit), (GetState, Normal s),
                        (Cache Get c args, Normal cached),
                        (ActionWith (successType v) [action, s, fakeJsonResponse h cached], Normal ev),
                        (Next ev, Normal r)] \<and> list_all early (x # pre) \<and> out = Normal r"
    by simp
  then show "\<exists>pre s cached ev r.
           x # new = pre @ [(Cache Has c args, Normal hit), (GetState, Normal s),
                        (Cache Get c args, Normal cached),
                        (ActionWith (successType v) [action, s, fakeJsonResponse h cached], Normal ev),
                        (Next ev, Normal r)] \<and>
           list_all early pre \<and> out = Normal r"
    by blast
qed

lemma hit_run_miss [simp]:
  "\<not> truthy x \<Longrightarrow> list_all late new \<Longrightarrow> hit_run h action v out ((Cache Has c a, Normal x) # new)"
  by (auto simp: hit_run_def late_no_has)

lemma hit_run_failed [simp]:
  "list_all late new \<Longrightarrow> hit_run h action v out ((Cache Has c a, Abrupt e) # new)"
  by (auto simp: hit_run_def late_no_has)

lemma hit_run_exact [simp]:
  "hit_run h action v (Normal r)
     [(Cache Has c a, Normal x), (GetState, Normal s), (Cache Get c a, Normal cached),
      (ActionWith (successType v) [action, s, fakeJsonResponse h cached], Normal ev),
      (Next ev, Normal r)]"
  unfolding hit_run_def
  by (intro allI impI exI [of _ "[]"]) auto

lemma probeCache_hit:
  assumes "reliable env" and "\<And>n c a e. env n (Cache Get c a) \<noteq> Abrupt e"
    and "is_function (prop_of (cache v) ''get'')"
  shows "yields (probeCache h env action v) (hit_run h action v)"
  unfolding probeCache_def call_method_def
  using assms(2,3)
  by (auto intro!: wp yields_weaken [OF cacheFailed_calls] yields_weaken [OF processHeaders_calls]
      simp: reliable_simps [OF assms(1)] list.pred_mono_strong [OF _ quiet_late]
      split: completion.splits option.splits)


lemma processEndpoint_hit:
  assumes "reliable env" and "\<And>n c a e. env n (Cache Get c a) \<noteq> Abrupt e"
    and "is_function (prop_of (cache v) ''get'')"
  shows "yields (processEndpoint h env action v) (hit_run h action v)"
  unfolding processEndpoint_def
  using assms(3)
  by (auto intro!: wp yields_weaken [OF requestError_calls]
      yields_weaken [OF probeCache_hit [OF assms(1,2)]]
      split: completion.splits)

lemma checkBailout_hit:
  assumes "reliable env" and "\<And>n c a e. env n (Cache Get c a) \<noteq> Abrupt e"
    and "is_function (prop_of (cache v) ''get'')"
  shows "yields (checkBailout h env action v) (hit_run h action v)"
  unfolding checkBailout_def
  by (auto intro!: wp yields_weaken [OF requestError_calls]
      yields_weaken [OF processEndpoint_hit [OF assms]]
      split: completion.splits)

lemma emitted_early: "list_all early pre \<Longrightarrow> emitted (pre @ t) = emitted t"
proof (induction pre)
  case Nil
  show ?case by simp
next
  case (Cons x pre)
  then show ?case by (cases x rule: early.cases) simp_all
qed

lemma fetches_early: "list_all early pre \<Longrightarrow> fetches (pre @ t) = fetches t"
proof (induction pre)
  case Nil
  show ?case by simp
next
  case (Cons x pre)
  then show ?case by (cases x rule: early.cases) simp_all
qed

text \<open>
  C3, as the code has it. For a valid RSAA whose cache has a callable \<^verbatim>\<open>get\<close>, in an
  environment where \<^verbatim>\<open>getState\<close>, \<^verbatim>\<open>actionWith\<close>, \<^verbatim>\<open>next\<close> and \<^verbatim>\<open>cache.get\<close> do not fail:
  when a call of \<^verbatim>\<open>cache.has\<close> in the run resolved to a truthy value, the run ends with that
  call, a read of the state, the call of \<^verbatim>\<open>cache.get\<close> with the same key, the call of
  \<^verbatim>\<open>actionWith\<close> on the success descriptor, the action, the state and the cached value
  wrapped by \<^verbatim>\<open>fakeJsonResponse\<close>, and the call of \<^verbatim>\<open>next\<close> on the event so built. This
  event is the only one emitted (there is no request event), and the transport is not
  called.
\<close>

theorem cache_hit_run:
  assumes "isRSAA h action" and "validateRSAA h action = []" and "parseRSAA h action = Normal v"
    and "is_function (prop_of (cache v) ''get'')"
    and "reliable env" and "\<forall>n c a. \<exists>x. env n (Cache Get c a) = Normal x"
    and "apiMiddleware h env action [] = (out, tr)"
    and "(Cache Has c key, Normal hit) \<in> set tr" and "truthy hit"
  shows "\<exists>pre s cached ev r.
           tr = pre @ [(Cache Has c key, Normal hit), (GetState, Normal s),
                       (Cache Get c key, Normal cached),
                       (ActionWith (successType v) [action, s, fakeJsonResponse h cached], Normal ev),
                       (Next ev, Normal r)] \<and>
           emitted tr = [ev] \<and> fetches tr = [] \<and> out = Normal r"
proof -
  from assms(6) have get: "\<And>n c a e. env n (Cache Get c a) \<noteq> Abrupt e"
    by (metis completion.distinct(1))
  from assms(1-3,7) have "checkBailout h env action v [] = (out, tr)"
    by (simp add: apiMiddleware_def andThen_def lift_def)
  from yields_run [OF checkBailout_hit [OF assms(5) get assms(4)] this] assms(8,9)
  obtain pre s cached ev r where
    tr: "tr = pre @ [(Cache Has c key, Normal hit), (GetState, Normal s),
                       (Cache Get c key, Normal cached),
                       (ActionWith (successType v) [action, s, fakeJsonResponse h cached], Normal ev),
                       (Next ev, Normal r)]"
    and pre: "list_all early pre" and out: "out = Normal r"
    unfolding hit_run_def by blast
  from tr pre have "emitted tr = [ev]" "fetches tr = []"
    by (simp_all add: emitted_early fetches_early)
  with tr out show ?thesis by blast
qed


lemma reliable_world: "reliable world"
  unfolding reliable_def
proof (intro allI impI)
  fix n c
  assume "collaborator c"
  then show "\<exists>x. world n c = Normal x"
    by (cases c) (simp_all add: world_def)
qed

text \<open>A run on a cache that holds the endpoint.\<close>

theorem cache_hit_run_witness:
  "reliable world \<and>
   (Cache Has full_cache [JStr ''/x''], Normal (JBool True))
     \<in> set (snd (apiMiddleware sample world (rsaa (basic @ [(''cache'', full_cache)])) [])) \<and>
   (\<exists>pre s cached ev r.
      snd (apiMiddleware sample world (rsaa (basic @ [(''cache'', full_cache)])) []) =
        pre @ [(Cache Has full_cache [JStr ''/x''], Normal (JBool True)), (GetState, Normal s),
               (Cache Get full_cache [JStr ''/x''], Normal cached),
               (ActionWith (JObj [(''type'', JStr ''OK''), (''payload'', defaultPayload)])
                  [rsaa (basic @ [(''cache'', full_cache)]), s, fakeJsonResponse sample cached],
                Normal ev),
               (Next ev, Normal r)] \<and>
      emitted (snd (apiMiddleware sample world (rsaa (basic @ [(''cache'', full_cache)])) [])) = [ev] \<and>
      fetches (snd (apiMiddleware sample world (rsaa (basic @ [(''cache'', full_cache)])) [])) = [] \<and>
      fst (apiMiddleware sample world (rsaa (basic @ [(''cache'', full_cache)])) []) = Normal r)"
proof -
  let ?i = "basic @ [(''cache'', full_cache)]"
  have valid: "isRSAA sample (rsaa ?i)" "validateRSAA sample (rsaa ?i) = []"
    by (simp_all add: sample_defs)
  have v: "is_function (prop_of (cache (destructure sample (JObj ?i))) ''get'')"
      "successType (destructure sample (JObj ?i)) = JObj [(''type'', JStr ''OK''), (''payload'', defaultPayload)]"
    by (simp_all add: destructure_def Let_def basic_def full_cache_def sample_def
        normalizeTypeDescriptors_spec_def elem_or_undefined_def as_record_def with_default_def)
  have get: "\<forall>n c a. \<exists>x. world n (Cache Get c a) = Normal x"
    by (simp add: world_def)
  have mem: "(Cache Has full_cache [JStr ''/x''], Normal (JBool True))
     \<in> set (snd (apiMiddleware sample world (rsaa ?i) []))"
    by code_simp
  from cache_hit_run [OF valid sample_parse v(1) reliable_world get prod.collapse [symmetric] mem]
    reliable_world mem
  show ?thesis by (simp add: v(2))
qed

section \<open>The cause of a failure\<close>

lemma quiet_no_reported: "list_all quiet new \<Longrightarrow> reported c \<Longrightarrow> (c, r) \<notin> set new"
  by (cases c) (auto simp: list_all_iff)

lemma failure_run_Nil [simp]: "failure_run action v out []"
  by (simp add: failure_run_def)

lemma failure_run_quiet [simp]: "list_all quiet new \<Longrightarrow> failure_run action v out new"
  by (auto simp: failure_run_def quiet_no_reported)

lemma failure_run_vars [simp]:
  "failure_run action (v\<lparr>endpoint := x\<rparr>) out new = failure_run action v out new"
  "failure_run action (v\<lparr>headers := x\<rparr>) out new = failure_run action v out new"
  "failure_run action (v\<lparr>options := x\<rparr>) out new = failure_run action v out new"
  by (simp_all add: failure_run_def errorDescriptor_def)

lemma failure_run_Cons:
  assumes "(c', r') \<notin> {(c, Abrupt e) | c e. reported c}" and "failure_run action v out new"
  shows "failure_run action v out ((c', r') # new)"
  unfolding failure_run_def
proof (intro allI impI)
  fix c e cause
  assume "(c, Abrupt e) \<in> set ((c', r') # new) \<and> reported c \<and>
    (probe_or_fetch c \<longrightarrow> message e = Normal (JStr cause))"
  then have mem: "(c, Abrupt e) \<in> set ((c', r') # new)" and rep: "reported c"
    and cause: "probe_or_fetch c \<longrightarrow> message e = Normal (JStr cause)"
    by simp_all
  from rep assms(1) have "(c, Abrupt e) \<noteq> (c', r')"
    by blast
  with mem have "(c, Abrupt e) \<in> set new"
    by auto
  with rep cause assms(2) [unfolded failure_run_def, rule_format, of c e cause]
  obtain pre s ev r where
    "new = pre @ [(c, Abrupt e), (GetState, Normal s),
                  (ActionWith (errorDescriptor v (JStr (failure_message c cause))) [action, s], Normal ev),
                  (Next ev, Normal r)]" "out = Normal r"
    by blast
  then have "(c', r') # new = ((c', r') # pre) @ [(c, Abrupt e), (GetState, Normal s),
                  (ActionWith (errorDescriptor v (JStr (failure_message c cause))) [action, s], Normal ev),
                  (Next ev, Normal r)] \<and> out = Normal r"
    by simp
  then show "\<exists>pre s ev r.
           (c', r') # new = pre @ [(c, Abrupt e), (GetState, Normal s),
                  (ActionWith (errorDescriptor v (JStr (failure_message c cause))) [action, s], Normal ev),
                  (Next ev, Normal r)] \<and> out = Normal r"
    by blast
qed

lemma failure_run_skip [simp]:
  "\<not> reported c' \<Longrightarrow> failure_run action v out new \<Longrightarrow> failure_run action v out ((c', r') # new)"
  by (rule failure_run_Cons) auto

lemma failure_run_normal [simp]:
  "failure_run action v out new \<Longrightarrow> failure_run action v out ((c', Normal x) # new)"
  by (rule failure_run_Cons) auto

lemma failure_run_apply:
  "failure_run action v (Normal r)
     [(Apply site f x, Abrupt e), (GetState, Normal s),
      (ActionWith (errorDescriptor v (JStr (fixed_message site))) [action, s], Normal ev),
      (Next ev, Normal r)]"
  unfolding failure_run_def
  by (intro allI impI exI [of _ "[]"]) auto

lemmas failure_run_bailout [simp] = failure_run_apply [where site = BailoutFn, simplified]

lemmas failure_run_endpoint [simp] = failure_run_apply [where site = EndpointFn, simplified]

lemmas failure_run_headers [simp] = failure_run_apply [where site = HeadersFn, simplified]

lemmas failure_run_options [simp] = failure_run_apply [where site = OptionsFn, simplified]

lemma failure_run_reports:
  assumes "reports action v before e out new" and "list_all quiet new"
    and "probe_or_fetch c" and "\<And>cause. failure_message c cause = before @ cause"
  shows "failure_run action v out ((c, Abrupt e) # new)"
  unfolding failure_run_def
proof (intro allI impI)
  fix c' e' cause
  assume "(c', Abrupt e') \<in> set ((c, Abrupt e) # new) \<and> reported c' \<and>
    (probe_or_fetch c' \<longrightarrow> message e' = Normal (JStr cause))"
  then have mem: "(c', Abrupt e') \<in> set ((c, Abrupt e) # new)" and rep: "reported c'"
    and cause: "probe_or_fetch c' \<longrightarrow> message e' = Normal (JStr cause)"
    by simp_all
  from quiet_no_reported [OF assms(2) rep] mem have eq: "c' = c" "e' = e"
    by auto
  with cause assms(3) have "message e = Normal (JStr cause)"
    by simp
  with assms(1) obtain s ev r where
    "new = [(GetState, Normal s),
            (ActionWith (errorDescriptor v (JStr (before @ cause))) [action, s], Normal ev),
            (Next ev, Normal r)]" "out = Normal r"
    unfolding reports_def by blast
  with eq assms(4) have "(c, Abrupt e) # new = [] @ [(c', Abrupt e'), (GetState, Normal s),
            (ActionWith (errorDescriptor v (JStr (failure_message c' cause))) [action, s], Normal ev),
            (Next ev, Normal r)] \<and> out = Normal r"
    by simp
  then show "\<exists>pre s ev r.
           (c, Abrupt e) # new = pre @ [(c', Abrupt e'), (GetState, Normal s),
                  (ActionWith (errorDescriptor v (JStr (failure_message c' cause))) [action, s], Normal ev),
                  (Next ev, Normal r)] \<and> out = Normal r"
    by blast
qed

lemma failure_run_has [simp]:
  assumes "reports action v ''[CALL_API].cache API function failed: '' e out new"
    and "list_all quiet new"
  shows "failure_run action v out ((Cache Has c a, Abrupt e) # new)"
  by (rule failure_run_reports [OF assms]) simp_all

lemma failure_run_get [simp]:
  assumes "reports action v ''[CALL_API].cache API function failed: '' e out new"
    and "list_all quiet new"
  shows "failure_run action v out ((Cache Get c a, Abrupt e) # new)"
  by (rule failure_run_reports [OF assms]) simp_all

lemma failure_run_fetch [simp]:
  assumes "reports action v [] e out new" and "list_all quiet new"
  shows "failure_run action v out ((Fetch url init, Abrupt e) # new)"
  by (rule failure_run_reports [OF assms]) simp_all

lemma yields_ext_cases:
  assumes "\<And>n x. env n c = Normal x \<Longrightarrow> Q (Normal x) [(c, Normal x)]"
    and "\<And>n e. env n c = Abrupt e \<Longrightarrow> Q (Abrupt e) [(c, Abrupt e)]"
  shows "yields (ext env c) Q"
proof (rule yields_ext)
  fix n
  show "Q (env n c) [(c, env n c)]"
    using assms [of n] by (cases "env n c") simp_all
qed

lemmas wp_cases = yields_ret yields_throw yields_lift yields_ext_cases yields_andThen
  yields_try_catch yields_if

lemma requestError_shape:
  assumes "reliable env"
  shows "yields (requestError env action v msg)
     (\<lambda>out new. \<exists>s ev r. new = [(GetState, Normal s),
                                 (ActionWith (errorDescriptor v msg) [action, s], Normal ev),
                                 (Next ev, Normal r)] \<and> out = Normal r)"
  unfolding requestError_def
  by (auto intro!: wp_cases simp: reliable_simps [OF assms])

lemma fetchFailed_reports:
  assumes "reliable env"
  shows "yields (fetchFailed env action v e) (\<lambda>out new. reports action v [] e out new \<and> list_all quiet new)"
  unfolding fetchFailed_def reports_def
  by (auto intro!: wp_cases yields_weaken [OF requestError_shape [OF assms]]
      split: completion.splits)

lemma cacheFailed_reports:
  assumes "reliable env"
  shows "yields (cacheFailed env action v e)
     (\<lambda>out new. reports action v ''[CALL_API].cache API function failed: '' e out new \<and>
        list_all quiet new)"
  unfolding cacheFailed_def to_string_def reports_def
  by (auto intro!: wp_cases yields_weaken [OF requestError_shape [OF assms]]
      split: completion.splits option.splits)

lemma callApi_failure:
  assumes "reliable env"
  shows "yields (callApi env action v) (failure_run action v)"
  unfolding callApi_def
  by (auto intro!: wp_cases yields_weaken [OF processResponse_calls]
      yields_weaken [OF fetchFailed_reports [OF assms]]
      simp: reliable_simps [OF assms])

lemma dispatchRequest_failure:
  assumes "reliable env"
  shows "yields (dispatchRequest env action v) (failure_run action v)"
  unfolding dispatchRequest_def
  by (auto intro!: wp_cases yields_weaken [OF callApi_failure [OF assms]]
      simp: reliable_simps [OF assms])

lemma processOptions_failure:
  assumes "reliable env"
  shows "yields (processOptions env action v) (failure_run action v)"
  unfolding processOptions_def
  by (auto intro!: wp_cases yields_weaken [OF requestError_shape [OF assms]]
      yields_weaken [OF dispatchRequest_failure [OF assms]]
      simp: reliable_simps [OF assms])

lemma processHeaders_failure:
  assumes "reliable env"
  shows "yields (processHeaders env action v) (failure_run action v)"
  unfolding processHeaders_def
  by (auto intro!: wp_cases yields_weaken [OF requestError_shape [OF assms]]
      yields_weaken [OF processOptions_failure [OF assms]]
      simp: reliable_simps [OF assms])

lemma probeCache_failure:
  assumes "reliable env"
  shows "yields (probeCache h env action v) (failure_run action v)"
  unfolding probeCache_def call_method_def
  by (auto intro!: wp_cases yields_weaken [OF cacheFailed_reports [OF assms]]
      yields_weaken [OF processHeaders_failure [OF assms]]
      simp: reliable_simps [OF assms] split: option.splits)

lemma processEndpoint_failure:
  assumes "reliable env"
  shows "yields (processEndpoint h env action v) (failure_run action v)"
  unfolding processEndpoint_def
  by (auto intro!: wp_cases yields_weaken [OF requestError_shape [OF assms]]
      yields_weaken [OF probeCache_failure [OF assms]]
      simp: reliable_simps [OF assms])

lemma checkBailout_failure:
  assumes "reliable env"
  shows "yields (checkBailout h env action v) (failure_run action v)"
  unfolding checkBailout_def
  by (auto intro!: wp_cases yields_weaken [OF requestError_shape [OF assms]]
      yields_weaken [OF processEndpoint_failure [OF assms]]
      simp: reliable_simps [OF assms])

lemma cause_in_failure_message: "probe_or_fetch c \<Longrightarrow> sublist cause (failure_message c cause)"
proof -
  assume "probe_or_fetch c"
  then have "failure_message c cause = [] @ cause \<or>
        failure_message c cause = ''[CALL_API].cache API function failed: '' @ cause"
    by (cases c) simp_all
  then show ?thesis
    by (metis sublist_append_leftI)
qed

text \<open>
  C5, as the code has it. For a valid RSAA, in an environment where \<^verbatim>\<open>getState\<close>,
  \<^verbatim>\<open>actionWith\<close> and \<^verbatim>\<open>next\<close> do not fail: when a call of one of the callables of the intent
  (\<^verbatim>\<open>bailout\<close>, \<^verbatim>\<open>endpoint\<close>, \<^verbatim>\<open>headers\<close>, \<^verbatim>\<open>options\<close>), of the cache probe (\<^verbatim>\<open>cache.has\<close>,
  \<^verbatim>\<open>cache.get\<close>) or of the transport failed with the thrown value \<open>e\<close>, where for the cache
  probe and the transport \<^verbatim>\<open>e.message\<close> is a string \<open>cause\<close> (as it is for every \<^verbatim>\<open>Error\<close>),
  the run ends with that call, a read of the state, the call of \<^verbatim>\<open>actionWith\<close> on the error
  descriptor and the call of \<^verbatim>\<open>next\<close> on its result. The payload of the descriptor is a
  \<^verbatim>\<open>RequestError\<close> whose message is \<open>cause\<close> for the transport, and \<open>cause\<close> after the text
  \<^verbatim>\<open>[CALL_API].cache API function failed: \<close> for the cache: in both cases it includes
  \<open>cause\<close>. For a callable of the intent the message is the fixed text of line 55, 70, 107
  or 123, \<^verbatim>\<open>[CALL_API].bailout function failed\<close> and so on, whatever was thrown.
\<close>

theorem cause_in_message:
  assumes "isRSAA h action" and "validateRSAA h action = []" and "parseRSAA h action = Normal v"
    and "reliable env"
    and "apiMiddleware h env action [] = (out, tr)"
    and "(c, Abrupt e) \<in> set tr" and "reported c"
    and "probe_or_fetch c \<longrightarrow> message e = Normal (JStr cause)"
  shows "\<exists>pre s ev r.
           tr = pre @ [(c, Abrupt e), (GetState, Normal s),
                       (ActionWith (errorDescriptor v (JStr (failure_message c cause))) [action, s],
                        Normal ev),
                       (Next ev, Normal r)] \<and>
           out = Normal r \<and>
           prop_of (errorDescriptor v (JStr (failure_message c cause))) ''payload'' =
             RequestError (JStr (failure_message c cause)) \<and>
           (probe_or_fetch c \<longrightarrow> sublist cause (failure_message c cause)) \<and>
           (\<forall>site f x. c = Apply site f x \<longrightarrow> failure_message c cause = fixed_message site)"
proof -
  from assms(1-3,5) have "checkBailout h env action v [] = (out, tr)"
    by (simp add: apiMiddleware_def andThen_def lift_def)
  then have "failure_run action v out tr"
    by (rule yields_run [OF checkBailout_failure [OF assms(4)]])
  from this [unfolded failure_run_def, rule_format, of c e cause] assms(6-8)
  obtain pre s ev r where
    tr: "tr = pre @ [(c, Abrupt e), (GetState, Normal s),
                       (ActionWith (errorDescriptor v (JStr (failure_message c cause))) [action, s],
                        Normal ev),
                       (Next ev, Normal r)]" and out: "out = Normal r"
    by blast
  have "prop_of (errorDescriptor v (JStr (failure_message c cause))) ''payload'' =
             RequestError (JStr (failure_message c cause))"
    by (simp add: errorDescriptor_props)
  moreover have "probe_or_fetch c \<longrightarrow> sublist cause (failure_message c cause)"
    by (simp add: cause_in_failure_message)
  moreover have "\<forall>site f x. c = Apply site f x \<longrightarrow> failure_message c cause = fixed_message site"
    by simp
  ultimately show ?thesis
    using tr out by blast
qed

text \<open>
  A cache whose \<^verbatim>\<open>has\<close> fails, a server that cannot be reached, and a \<^verbatim>\<open>bailout\<close>, an
  \<^verbatim>\<open>endpoint\<close>, a \<^verbatim>\<open>headers\<close> and an \<^verbatim>\<open>options\<close> callable that throw.
\<close>

theorem cause_in_message_witness:
  "reliable world \<and>
   (Cache Has broken_cache [JStr ''/x''], Abrupt (Exn ''Error'' ''cache down''))
     \<in> set (snd (apiMiddleware sample world (rsaa (basic @ [(''cache'', broken_cache)])) [])) \<and>
   (\<exists>pre s ev r.
      snd (apiMiddleware sample world (rsaa (basic @ [(''cache'', broken_cache)])) []) =
        pre @ [(Cache Has broken_cache [JStr ''/x''], Abrupt (Exn ''Error'' ''cache down'')),
               (GetState, Normal s),
               (ActionWith (errorDescriptor (destructure sample (JObj (basic @ [(''cache'', broken_cache)])))
                             (JStr ''[CALL_API].cache API function failed: cache down''))
                  [rsaa (basic @ [(''cache'', broken_cache)]), s], Normal ev),
               (Next ev, Normal r)] \<and>
      fst (apiMiddleware sample world (rsaa (basic @ [(''cache'', broken_cache)])) []) = Normal r) \<and>
   (Fetch (JStr ''/off'') (JObj [(''method'', JUndefined), (''body'', JUndefined),
                                 (''credentials'', JUndefined), (''headers'', JObj [])]),
    Abrupt (Exn ''TypeError'' ''Failed to fetch''))
     \<in> set (snd (apiMiddleware sample world
          (rsaa [(''endpoint'', JStr ''/off''), (''types'', JArr [JStr ''REQ'', JStr ''OK'', JStr ''FAIL''])]) [])) \<and>
   (\<exists>pre s ev r.
      snd (apiMiddleware sample world
          (rsaa [(''endpoint'', JStr ''/off''), (''types'', JArr [JStr ''REQ'', JStr ''OK'', JStr ''FAIL''])]) []) =
        pre @ [(Fetch (JStr ''/off'') (JObj [(''method'', JUndefined), (''body'', JUndefined),
                                 (''credentials'', JUndefined), (''headers'', JObj [])]),
                Abrupt (Exn ''TypeError'' ''Failed to fetch'')),
               (GetState, Normal s),
               (ActionWith (errorDescriptor (destructure sample
                     (JObj [(''endpoint'', JStr ''/off''),
                            (''types'', JArr [JStr ''REQ'', JStr ''OK'', JStr ''FAIL''])]))
                             (JStr ''Failed to fetch''))
                  [rsaa [(''endpoint'', JStr ''/off''), (''types'', JArr [JStr ''REQ'', JStr ''OK'', JStr ''FAIL''])], s],
                Normal ev),
               (Next ev, Normal r)] \<and>
      fst (apiMiddleware sample world
          (rsaa [(''endpoint'', JStr ''/off''), (''types'', JArr [JStr ''REQ'', JStr ''OK'', JStr ''FAIL''])]) []) =
        Normal r) \<and>
   (Apply BailoutFn (JFun 22) (JObj [(''calls'', JNum 0)]), Abrupt (Exn ''Error'' ''boom''))
     \<in> set (snd (apiMiddleware sample world (rsaa (basic @ [(''bailout'', JFun 22)])) [])) \<and>
   (\<exists>pre s ev r.
      snd (apiMiddleware sample world (rsaa (basic @ [(''bailout'', JFun 22)])) []) =
        pre @ [(Apply BailoutFn (JFun 22) (JObj [(''calls'', JNum 0)]), Abrupt (Exn ''Error'' ''boom'')),
               (GetState, Normal s),
               (ActionWith (errorDescriptor (destructure sample (JObj (basic @ [(''bailout'', JFun 22)])))
                             (JStr ''[CALL_API].bailout function failed''))
                  [rsaa (basic @ [(''bailout'', JFun 22)]), s], Normal ev),
               (Next ev, Normal r)] \<and>
      fst (apiMiddleware sample world (rsaa (basic @ [(''bailout'', JFun 22)])) []) = Normal r) \<and>
   (Apply EndpointFn (JFun 22) (JObj [(''calls'', JNum 0)]), Abrupt (Exn ''Error'' ''boom''))
     \<in> set (snd (apiMiddleware sample world
          (rsaa [(''endpoint'', JFun 22), (''types'', JArr [JStr ''REQ'', JStr ''OK'', JStr ''FAIL''])]) [])) \<and>
   (\<exists>pre s ev r.
      snd (apiMiddleware sample world
          (rsaa [(''endpoint'', JFun 22), (''types'', JArr [JStr ''REQ'', JStr ''OK'', JStr ''FAIL''])]) []) =
        pre @ [(Apply EndpointFn (JFun 22) (JObj [(''calls'', JNum 0)]), Abrupt (Exn ''Error'' ''boom'')),
               (GetState, Normal s),
               (ActionWith (errorDescriptor (destructure sample
                     (JObj [(''endpoint'', JFun 22),
                            (''types'', JArr [JStr ''REQ'', JStr ''OK'', JStr ''FAIL''])]))
                             (JStr ''[CALL_API].endpoint function failed''))
                  [rsaa [(''endpoint'', JFun 22), (''types'', JArr [JStr ''REQ'', JStr ''OK'', JStr ''FAIL''])], s],
                Normal ev),
               (Next ev, Normal r)] \<and>
      fst (apiMiddleware sample world
          (rsaa [(''endpoint'', JFun 22), (''types'', JArr [JStr ''REQ'', JStr ''OK'', JStr ''FAIL''])]) []) =
        Normal r) \<and>
   (Apply HeadersFn (JFun 22) (JObj [(''calls'', JNum 0)]), Abrupt (Exn ''Error'' ''boom''))
     \<in> set (snd (apiMiddleware sample world (rsaa (basic @ [(''headers'', JFun 22)])) [])) \<and>
   (\<exists>pre s ev r.
      snd (apiMiddleware sample world (rsaa (basic @ [(''headers'', JFun 22)])) []) =
        pre @ [(Apply HeadersFn (JFun 22) (JObj [(''calls'', JNum 0)]), Abrupt (Exn ''Error'' ''boom'')),
               (GetState, Normal s),
               (ActionWith (errorDescriptor (destructure sample (JObj (basic @ [(''headers'', JFun 22)])))
                             (JStr ''[CALL_API].headers function failed''))
                  [rsaa (basic @ [(''headers'', JFun 22)]), s], Normal ev),
               (Next ev, Normal r)] \<and>
      fst (apiMiddleware sample world (rsaa (basic @ [(''headers'', JFun 22)])) []) = Normal r) \<and>
   (Apply OptionsFn (JFun 22) (JObj [(''calls'', JNum 0)]), Abrupt (Exn ''Error'' ''boom''))
     \<in> set (snd (apiMiddleware sample world (rsaa (basic @ [(''options'', JFun 22)])) [])) \<and>
   (\<exists>pre s ev r.
      snd (apiMiddleware sample world (rsaa (basic @ [(''options'', JFun 22)])) []) =
        pre @ [(Apply OptionsFn (JFun 22) (JObj [(''calls'', JNum 0)]), Abrupt (Exn ''Error'' ''boom'')),
               (GetState, Normal s),
               (ActionWith (errorDescriptor (destructure sample (JObj (basic @ [(''options'', JFun 22)])))
                             (JStr ''[CALL_API].options function failed''))
                  [rsaa (basic @ [(''options'', JFun 22)]), s], Normal ev),
               (Next ev, Normal r)] \<and>
      fst (apiMiddleware sample world (rsaa (basic @ [(''options'', JFun 22)])) []) = Normal r)"
proof -
  let ?c = "basic @ [(''cache'', broken_cache)]"
  let ?f = "[(''endpoint'', JStr ''/off''), (''types'', JArr [JStr ''REQ'', JStr ''OK'', JStr ''FAIL''])]"
  let ?b = "basic @ [(''bailout'', JFun 22)]"
  let ?e = "[(''endpoint'', JFun 22), (''types'', JArr [JStr ''REQ'', JStr ''OK'', JStr ''FAIL''])]"
  let ?h = "basic @ [(''headers'', JFun 22)]"
  let ?o = "basic @ [(''options'', JFun 22)]"
  have vc: "isRSAA sample (rsaa ?c)" "validateRSAA sample (rsaa ?c) = []"
    and vf: "isRSAA sample (rsaa ?f)" "validateRSAA sample (rsaa ?f) = []"
    and vb: "isRSAA sample (rsaa ?b)" "validateRSAA sample (rsaa ?b) = []"
    and ve: "isRSAA sample (rsaa ?e)" "validateRSAA sample (rsaa ?e) = []"
    and vh: "isRSAA sample (rsaa ?h)" "validateRSAA sample (rsaa ?h) = []"
    and vo: "isRSAA sample (rsaa ?o)" "validateRSAA sample (rsaa ?o) = []"
    by (simp_all add: sample_defs)
  have mc: "(Cache Has broken_cache [JStr ''/x''], Abrupt (Exn ''Error'' ''cache down''))
     \<in> set (snd (apiMiddleware sample world (rsaa ?c) []))"
    by code_simp
  have mf: "(Fetch (JStr ''/off'') (JObj [(''method'', JUndefined), (''body'', JUndefined),
                                 (''credentials'', JUndefined), (''headers'', JObj [])]),
    Abrupt (Exn ''TypeError'' ''Failed to fetch''))
     \<in> set (snd (apiMiddleware sample world (rsaa ?f) []))"
    by code_simp
  have mb: "(Apply BailoutFn (JFun 22) (JObj [(''calls'', JNum 0)]), Abrupt (Exn ''Error'' ''boom''))
     \<in> set (snd (apiMiddleware sample world (rsaa ?b) []))"
    by code_simp
  have me: "(Apply EndpointFn (JFun 22) (JObj [(''calls'', JNum 0)]), Abrupt (Exn ''Error'' ''boom''))
     \<in> set (snd (apiMiddleware sample world (rsaa ?e) []))"
    by code_simp
  have mh: "(Apply HeadersFn (JFun 22) (JObj [(''calls'', JNum 0)]), Abrupt (Exn ''Error'' ''boom''))
     \<in> set (snd (apiMiddleware sample world (rsaa ?h) []))"
    by code_simp
  have mo: "(Apply OptionsFn (JFun 22) (JObj [(''calls'', JNum 0)]), Abrupt (Exn ''Error'' ''boom''))
     \<in> set (snd (apiMiddleware sample world (rsaa ?o) []))"
    by code_simp
  from cause_in_message [where cause = "''cache down''",
      OF vc sample_parse reliable_world prod.collapse [symmetric] mc]
    cause_in_message [where cause = "''Failed to fetch''",
      OF vf sample_parse reliable_world prod.collapse [symmetric] mf]
    cause_in_message [where cause = "''boom''",
      OF vb sample_parse reliable_world prod.collapse [symmetric] mb]
    cause_in_message [where cause = "''boom''",
      OF ve sample_parse reliable_world prod.collapse [symmetric] me]
    cause_in_message [where cause = "''boom''",
      OF vh sample_parse reliable_world prod.collapse [symmetric] mh]
    cause_in_message [where cause = "''boom''",
      OF vo sample_parse reliable_world prod.collapse [symmetric] mo]
    reliable_world mc mf mb me mh mo
  show ?thesis by simp blast
qed

end
